theory Spec2Isabelle
  imports Complex_Main
begin

section \<open>The host: Python numbers and the keyword table\<close>

text \<open>
  The evaluator of \<^verbatim>\<open>prim/eval.py\<close> leans on three things that live outside of it:
  Python's \<^verbatim>\<open>float\<close> type with its arithmetic, the conversion between \<^verbatim>\<open>int\<close> and
  \<^verbatim>\<open>float\<close>, and the two spellings \<^verbatim>\<open>Keyword.TRUE.value\<close> and \<^verbatim>\<open>Keyword.FALSE.value\<close> of
  \<^verbatim>\<open>prim/keyword.py\<close>. None of them is fixed here: the float type is the type variable
  \<open>'f\<close> and the operations are the fields of a record that every function of the
  evaluator takes as its first argument. Python's \<^verbatim>\<open>int\<close> is unbounded, so it is \<open>int\<close>.
\<close>

datatype cmp = LT | EQ | GT

record 'f host =
  kw_true :: string
    \<comment> \<open>\<^verbatim>\<open>Keyword.TRUE.value\<close>\<close>
  kw_false :: string
    \<comment> \<open>\<^verbatim>\<open>Keyword.FALSE.value\<close>\<close>
  float_of_int :: "int \<Rightarrow> 'f option"
    \<comment> \<open>the implicit conversion of an \<^verbatim>\<open>int\<close> operand next to a \<^verbatim>\<open>float\<close>;
        \<open>None\<close> is \<^verbatim>\<open>OverflowError\<close> (int too large to convert to float)\<close>
  fadd :: "'f \<Rightarrow> 'f \<Rightarrow> 'f"
  fsub :: "'f \<Rightarrow> 'f \<Rightarrow> 'f"
  fmul :: "'f \<Rightarrow> 'f \<Rightarrow> 'f"
  fdiv :: "'f \<Rightarrow> 'f \<Rightarrow> 'f"
    \<comment> \<open>\<^verbatim>\<open>float / float\<close> for a divisor other than zero\<close>
  int_truediv :: "int \<Rightarrow> int \<Rightarrow> 'f option"
    \<comment> \<open>\<^verbatim>\<open>int / int\<close> for a divisor other than zero;
        \<open>None\<close> is \<^verbatim>\<open>OverflowError\<close> (integer division result too large for a float)\<close>
  fcmp :: "'f \<Rightarrow> 'f \<Rightarrow> cmp option"
    \<comment> \<open>the order of two floats; \<open>None\<close> when they are unordered (a NaN)\<close>
  ifcmp :: "int \<Rightarrow> 'f \<Rightarrow> cmp option"
    \<comment> \<open>the exact order of an int and a float; \<open>None\<close> when unordered\<close>
  ftruthy :: "'f \<Rightarrow> bool"
    \<comment> \<open>\<^verbatim>\<open>bool(x)\<close> of a float, that is \<^verbatim>\<open>x != 0.0\<close>\<close>
  frepr :: "'f \<Rightarrow> string"
    \<comment> \<open>\<^verbatim>\<open>str(x)\<close> of a float\<close>

section \<open>The abstract syntax tree\<close>

text \<open>
  \<^verbatim>\<open>prim/ast.py\<close> is imported by the evaluator; its seven node classes are read
  through the fields \<^verbatim>\<open>value\<close>, \<^verbatim>\<open>params\<close>, \<^verbatim>\<open>body\<close>, \<^verbatim>\<open>conditions\<close>,
  \<^verbatim>\<open>consequents\<close>, \<^verbatim>\<open>alternative\<close>, \<^verbatim>\<open>operator\<close> and \<^verbatim>\<open>args\<close>. The datatype has these seven
  classes and no other, so the last branch of \<^verbatim>\<open>_eval_expr\<close>
  (\<^verbatim>\<open>Unsupported expression\<close>, for an object of any other class) has no counterpart.
\<close>

datatype 'f expr =
    IntLiteral int
  | FloatLiteral 'f
  | SymbolLiteral string
  | StringLiteral string
  | LambdaExpr "string list" "'f expr"
  | IfExpr "'f expr list" "'f expr list" "'f expr"
  | CallExpr "'f expr" "'f expr list"

section \<open>Builtins\<close>

text \<open>
  A \<^verbatim>\<open>Builtin\<close> is one of five dataclasses, each wrapping a native function \<^verbatim>\<open>fn\<close>.
  The only native functions are the thirteen lambdas of \<^verbatim>\<open>BUILTINS\<close>; each is named
  by a constructor and interpreted further down. An instance of the bare base class
  \<^verbatim>\<open>Builtin\<close> is never made, so the last line of \<^verbatim>\<open>_eval_call_builtin\<close>, which raises for
  it, has no counterpart.
\<close>

datatype nn_fn = Add | Sub | Mul | Div
datatype nb_fn = Eq | Lt | Gt | Le | Ge
datatype bb_fn = And | Or
datatype b_fn = Not
datatype ss_fn = Concat

datatype builtin =
    NumberNumberToNumber nn_fn
  | NumberNumberToBool nb_fn
  | BoolBoolToBool bb_fn
  | BoolToBool b_fn
  | StringStringToString ss_fn

section \<open>Values and frames\<close>

text \<open>
  \<^verbatim>\<open>Value = Number | bool | str | Builtin | Closure\<close>. A \<^verbatim>\<open>Frame\<close> holds a read-only
  mapping from names to values and an optional parent; a \<^verbatim>\<open>Closure\<close> holds its
  parameter names, its body and the frame it was created in.
\<close>

datatype 'f val =
    VInt int
  | VFloat 'f
  | VBool bool
  | VStr string
  | VBuiltin builtin
  | VClosure "string list" "'f expr" "'f frame"
and 'f frame =
    Frame (bindings: "string \<Rightarrow> 'f val option") (parent: "'f frame option")

text \<open>
  Every failure of the evaluator is a \<^verbatim>\<open>RuntimeError\<close> with a message. The native
  arithmetic can raise two more exceptions of the host.
\<close>

datatype error = RuntimeError string | ZeroDivisionError | OverflowError

type_synonym 'f result = "error + 'f val"

subsection \<open>The registry\<close>

definition BUILTINS :: "string \<Rightarrow> 'f val option" where
  "BUILTINS = map_of
     [(''+'', VBuiltin (NumberNumberToNumber Add)),
      (''-'', VBuiltin (NumberNumberToNumber Sub)),
      (''*'', VBuiltin (NumberNumberToNumber Mul)),
      (''/'', VBuiltin (NumberNumberToNumber Div)),
      (''='', VBuiltin (NumberNumberToBool Eq)),
      (''<'', VBuiltin (NumberNumberToBool Lt)),
      (''>'', VBuiltin (NumberNumberToBool Gt)),
      (''<='', VBuiltin (NumberNumberToBool Le)),
      (''>='', VBuiltin (NumberNumberToBool Ge)),
      (''and'', VBuiltin (BoolBoolToBool And)),
      (''or'', VBuiltin (BoolBoolToBool Or)),
      (''not'', VBuiltin (BoolToBool Not)),
      (''++'', VBuiltin (StringStringToString Concat))]"

subsection \<open>Frame lookup\<close>

fun get :: "'f frame \<Rightarrow> string \<Rightarrow> 'f val option" where
  "get (Frame b p) name =
     (case b name of
        Some v \<Rightarrow> Some v
      | None \<Rightarrow> (case p of Some f \<Rightarrow> get f name | None \<Rightarrow> None))"

definition base_env :: "'f frame" where
  "base_env = Frame BUILTINS None"


section \<open>Host operations on values\<close>

subsection \<open>Truthiness\<close>

text \<open>
  \<^verbatim>\<open>if _eval_expr(condition, env):\<close> takes Python's truth value of any value: zero
  numbers, \<^verbatim>\<open>False\<close> and the empty string are false; the dataclasses \<^verbatim>\<open>Builtin\<close> and
  \<^verbatim>\<open>Closure\<close> define neither \<^verbatim>\<open>__bool__\<close> nor \<^verbatim>\<open>__len__\<close> and are true.
\<close>

fun truthy :: "'f host \<Rightarrow> 'f val \<Rightarrow> bool" where
  "truthy h (VInt i) = (i \<noteq> 0)"
| "truthy h (VFloat x) = ftruthy h x"
| "truthy h (VBool b) = b"
| "truthy h (VStr s) = (s \<noteq> [])"
| "truthy h (VBuiltin b) = True"
| "truthy h (VClosure ps e f) = True"

subsection \<open>Rendering\<close>

fun str_nat :: "nat \<Rightarrow> string" where
  "str_nat n =
     (if n < 10 then [''0123456789'' ! n]
      else str_nat (n div 10) @ [''0123456789'' ! (n mod 10)])"

declare str_nat.simps [simp del]

definition str_int :: "int \<Rightarrow> string" where
  "str_int i = (if i < 0 then ''-'' @ str_nat (nat (- i)) else str_nat (nat i))"

text \<open>
  \<^verbatim>\<open>str(v)\<close>, as the f-string of \<^verbatim>\<open>_eval_call\<close> takes it. That f-string is reached only
  with a value that is neither a \<^verbatim>\<open>Builtin\<close> nor a \<^verbatim>\<open>Closure\<close>; the rendering of those
  two (a dataclass repr that holds the address of a function object) is left
  unspecified.
\<close>

fun py_str :: "'f host \<Rightarrow> 'f val \<Rightarrow> string" where
  "py_str h (VInt i) = str_int i"
| "py_str h (VFloat x) = frepr h x"
| "py_str h (VBool b) = (if b then ''True'' else ''False'')"
| "py_str h (VStr s) = s"

subsection \<open>Dynamic types\<close>

text \<open>
  \<^verbatim>\<open>isinstance\<close> follows Python's class hierarchy, in which \<^verbatim>\<open>bool\<close> is a subclass of
  \<^verbatim>\<open>int\<close>: \<^verbatim>\<open>isinstance(True, int)\<close> holds.
\<close>

fun isinstance_int :: "'f val \<Rightarrow> bool" where
  "isinstance_int (VInt i) = True"
| "isinstance_int (VBool b) = True"
| "isinstance_int v = False"

fun isinstance_float :: "'f val \<Rightarrow> bool" where
  "isinstance_float (VFloat x) = True"
| "isinstance_float v = False"

fun isinstance_bool :: "'f val \<Rightarrow> bool" where
  "isinstance_bool (VBool b) = True"
| "isinstance_bool v = False"

fun isinstance_str :: "'f val \<Rightarrow> bool" where
  "isinstance_str (VStr s) = True"
| "isinstance_str v = False"

subsection \<open>The native functions\<close>

text \<open>
  The operands of a native function have passed the \<^verbatim>\<open>isinstance\<close> checks of
  \<^verbatim>\<open>_eval_call_builtin\<close>. A number operand is an \<^verbatim>\<open>int\<close> (a \<^verbatim>\<open>bool\<close> acting as 0 or 1)
  or a \<^verbatim>\<open>float\<close>.
\<close>

datatype 'f number = NInt int | NFloat 'f

fun as_number :: "'f val \<Rightarrow> 'f number option" where
  "as_number (VInt i) = Some (NInt i)"
| "as_number (VBool b) = Some (NInt (if b then 1 else 0))"
| "as_number (VFloat x) = Some (NFloat x)"
| "as_number v = None"

fun int_arith :: "'f host \<Rightarrow> nn_fn \<Rightarrow> int \<Rightarrow> int \<Rightarrow> 'f result" where
  "int_arith h Add i j = Inr (VInt (i + j))"
| "int_arith h Sub i j = Inr (VInt (i - j))"
| "int_arith h Mul i j = Inr (VInt (i * j))"
| "int_arith h Div i j =
     (if j = 0 then Inl ZeroDivisionError
      else case int_truediv h i j of
             None \<Rightarrow> Inl OverflowError
           | Some q \<Rightarrow> Inr (VFloat q))"

fun float_arith :: "'f host \<Rightarrow> nn_fn \<Rightarrow> 'f \<Rightarrow> 'f \<Rightarrow> 'f result" where
  "float_arith h Add x y = Inr (VFloat (fadd h x y))"
| "float_arith h Sub x y = Inr (VFloat (fsub h x y))"
| "float_arith h Mul x y = Inr (VFloat (fmul h x y))"
| "float_arith h Div x y =
     (if ftruthy h y then Inr (VFloat (fdiv h x y)) else Inl ZeroDivisionError)"

fun nn_apply :: "'f host \<Rightarrow> nn_fn \<Rightarrow> 'f number \<Rightarrow> 'f number \<Rightarrow> 'f result" where
  "nn_apply h fn (NInt i) (NInt j) = int_arith h fn i j"
| "nn_apply h fn (NInt i) (NFloat y) =
     (case float_of_int h i of
        None \<Rightarrow> Inl OverflowError
      | Some x \<Rightarrow> float_arith h fn x y)"
| "nn_apply h fn (NFloat x) (NInt j) =
     (case float_of_int h j of
        None \<Rightarrow> Inl OverflowError
      | Some y \<Rightarrow> float_arith h fn x y)"
| "nn_apply h fn (NFloat x) (NFloat y) = float_arith h fn x y"

fun flip :: "cmp \<Rightarrow> cmp" where
  "flip LT = GT"
| "flip EQ = EQ"
| "flip GT = LT"

fun number_cmp :: "'f host \<Rightarrow> 'f number \<Rightarrow> 'f number \<Rightarrow> cmp option" where
  "number_cmp h (NInt i) (NInt j) = Some (if i < j then LT else if i = j then EQ else GT)"
| "number_cmp h (NInt i) (NFloat y) = ifcmp h i y"
| "number_cmp h (NFloat x) (NInt j) = map_option flip (ifcmp h j x)"
| "number_cmp h (NFloat x) (NFloat y) = fcmp h x y"

fun cmp_holds :: "nb_fn \<Rightarrow> cmp option \<Rightarrow> bool" where
  "cmp_holds Eq c = (c = Some EQ)"
| "cmp_holds Lt c = (c = Some LT)"
| "cmp_holds Gt c = (c = Some GT)"
| "cmp_holds Le c = (c = Some LT \<or> c = Some EQ)"
| "cmp_holds Ge c = (c = Some GT \<or> c = Some EQ)"

definition nb_apply :: "'f host \<Rightarrow> nb_fn \<Rightarrow> 'f number \<Rightarrow> 'f number \<Rightarrow> 'f result" where
  "nb_apply h fn a b = Inr (VBool (cmp_holds fn (number_cmp h a b)))"

fun bb_apply :: "bb_fn \<Rightarrow> bool \<Rightarrow> bool \<Rightarrow> 'f result" where
  "bb_apply And a b = Inr (VBool (a \<and> b))"
| "bb_apply Or a b = Inr (VBool (a \<or> b))"

fun b_apply :: "b_fn \<Rightarrow> bool \<Rightarrow> 'f result" where
  "b_apply Not a = Inr (VBool (\<not> a))"

fun ss_apply :: "ss_fn \<Rightarrow> string \<Rightarrow> string \<Rightarrow> 'f result" where
  "ss_apply Concat a b = Inr (VStr (a @ b))"

section \<open>The evaluator\<close>

subsection \<open>Builtin calls\<close>

fun eval_call_builtin :: "'f host \<Rightarrow> builtin \<Rightarrow> 'f val list \<Rightarrow> 'f result" where
  "eval_call_builtin h (NumberNumberToNumber fn) args =
     (case args of
        [a, b] \<Rightarrow>
          (case (as_number a, as_number b) of
             (Some x, Some y) \<Rightarrow> nn_apply h fn x y
           | _ \<Rightarrow> Inl (RuntimeError ''Expected 2 number arguments''))
      | _ \<Rightarrow> Inl (RuntimeError ''Expected 2 arguments''))"
| "eval_call_builtin h (NumberNumberToBool fn) args =
     (case args of
        [a, b] \<Rightarrow>
          (case (as_number a, as_number b) of
             (Some x, Some y) \<Rightarrow> nb_apply h fn x y
           | _ \<Rightarrow> Inl (RuntimeError ''Expected 2 number arguments''))
      | _ \<Rightarrow> Inl (RuntimeError ''Expected 2 arguments''))"
| "eval_call_builtin h (BoolBoolToBool fn) args =
     (case args of
        [a, b] \<Rightarrow>
          (case (a, b) of
             (VBool x, VBool y) \<Rightarrow> bb_apply fn x y
           | _ \<Rightarrow> Inl (RuntimeError ''Expected 2 boolean arguments''))
      | _ \<Rightarrow> Inl (RuntimeError ''Expected 2 arguments''))"
| "eval_call_builtin h (BoolToBool fn) args =
     (case args of
        [a] \<Rightarrow>
          (case a of
             VBool x \<Rightarrow> b_apply fn x
           | _ \<Rightarrow> Inl (RuntimeError ''Expected 2 boolean arguments''))
      | _ \<Rightarrow> Inl (RuntimeError ''Expected 1 arguments''))"
| "eval_call_builtin h (StringStringToString fn) args =
     (case args of
        [a, b] \<Rightarrow>
          (case (a, b) of
             (VStr x, VStr y) \<Rightarrow> ss_apply fn x y
           | _ \<Rightarrow> Inl (RuntimeError ''Expected 2 string arguments''))
      | _ \<Rightarrow> Inl (RuntimeError ''Expected 2 arguments''))"

subsection \<open>Symbols\<close>

fun eval_symbol :: "'f host \<Rightarrow> string \<Rightarrow> 'f frame option \<Rightarrow> 'f result" where
  "eval_symbol h name env =
     (if name = kw_true h then Inr (VBool True)
      else if name = kw_false h then Inr (VBool False)
      else case env of
             None \<Rightarrow> Inl (RuntimeError (''Undefined identifier: '' @ name))
           | Some f \<Rightarrow>
               (case get f name of
                  None \<Rightarrow> Inl (RuntimeError (''Undefined identifier: '' @ name))
                | Some v \<Rightarrow> Inr v))"

subsection \<open>Call frames\<close>

text \<open>
  The dict comprehension over \<^verbatim>\<open>zip(operator.params, args)\<close> inserts the pairs in
  order; a later pair with a key already present replaces its value.
\<close>

definition dict_zip :: "string list \<Rightarrow> 'f val list \<Rightarrow> (string \<Rightarrow> 'f val option)" where
  "dict_zip ps vs = fold (\<lambda>(p, v) m. m(p \<mapsto> v)) (zip ps vs) Map.empty"

definition child_env :: "string list \<Rightarrow> 'f val list \<Rightarrow> 'f frame \<Rightarrow> 'f frame" where
  "child_env ps vs cenv = Frame (dict_zip ps vs) (Some cenv)"

subsection \<open>Expressions\<close>

text \<open>
  The evaluator recurses on the tree and, at a closure call, on the closure's body, so
  it need not return. \<open>eval_expr h n\<close> is \<^verbatim>\<open>_eval_expr\<close> with at most \<open>n\<close> nested
  calls of \<^verbatim>\<open>_eval_expr\<close> allowed; \<open>None\<close> says that the bound was reached. The helpers
  \<^verbatim>\<open>_eval_if\<close>, \<^verbatim>\<open>_eval_call\<close> and \<^verbatim>\<open>_eval_call_closure\<close> call back into \<^verbatim>\<open>_eval_expr\<close>;
  here they take it as their first argument \<open>ev\<close>, which \<open>eval_expr\<close> sets to itself
  at the remaining depth.
\<close>

type_synonym 'f evaluator = "'f expr \<Rightarrow> 'f frame \<Rightarrow> 'f result option"

fun eval_if ::
  "'f evaluator \<Rightarrow> 'f host \<Rightarrow> ('f expr \<times> 'f expr) list \<Rightarrow> 'f expr \<Rightarrow> 'f frame
   \<Rightarrow> 'f result option" where
  "eval_if ev h [] alt env = ev alt env"
| "eval_if ev h ((c, t) # rest) alt env =
     (case ev c env of
        None \<Rightarrow> None
      | Some (Inl e) \<Rightarrow> Some (Inl e)
      | Some (Inr v) \<Rightarrow> (if truthy h v then ev t env else eval_if ev h rest alt env))"

text \<open>The list comprehension \<^verbatim>\<open>[_eval_expr(arg, env) for arg in expr.args]\<close>.\<close>

fun eval_args :: "'f evaluator \<Rightarrow> 'f expr list \<Rightarrow> 'f frame \<Rightarrow> (error + 'f val list) option" where
  "eval_args ev [] env = Some (Inr [])"
| "eval_args ev (a # as) env =
     (case ev a env of
        None \<Rightarrow> None
      | Some (Inl e) \<Rightarrow> Some (Inl e)
      | Some (Inr v) \<Rightarrow>
          (case eval_args ev as env of
             None \<Rightarrow> None
           | Some (Inl e) \<Rightarrow> Some (Inl e)
           | Some (Inr vs) \<Rightarrow> Some (Inr (v # vs))))"

definition eval_call_closure ::
  "'f evaluator \<Rightarrow> string list \<Rightarrow> 'f expr \<Rightarrow> 'f frame \<Rightarrow> 'f val list \<Rightarrow> 'f result option" where
  "eval_call_closure ev ps bd cenv vs =
     (if length vs \<noteq> length ps then Some (Inl (RuntimeError ''Argument count mismatch''))
      else ev bd (child_env ps vs cenv))"

definition eval_call ::
  "'f evaluator \<Rightarrow> 'f host \<Rightarrow> 'f expr \<Rightarrow> 'f expr list \<Rightarrow> 'f frame \<Rightarrow> 'f result option" where
  "eval_call ev h f args env =
     (case ev f env of
        None \<Rightarrow> None
      | Some (Inl e) \<Rightarrow> Some (Inl e)
      | Some (Inr operator) \<Rightarrow>
          (case eval_args ev args env of
             None \<Rightarrow> None
           | Some (Inl e) \<Rightarrow> Some (Inl e)
           | Some (Inr vs) \<Rightarrow>
               (case operator of
                  VBuiltin b \<Rightarrow> Some (eval_call_builtin h b vs)
                | VClosure ps bd cenv \<Rightarrow> eval_call_closure ev ps bd cenv vs
                | _ \<Rightarrow> Some (Inl (RuntimeError (''Unsupported operator: '' @ py_str h operator))))))"

primrec eval_expr :: "'f host \<Rightarrow> nat \<Rightarrow> 'f evaluator" where
  "eval_expr h 0 = (\<lambda>e env. None)"
| "eval_expr h (Suc n) = (\<lambda>e env.
     case e of
       IntLiteral i \<Rightarrow> Some (Inr (VInt i))
     | FloatLiteral x \<Rightarrow> Some (Inr (VFloat x))
     | SymbolLiteral s \<Rightarrow> Some (eval_symbol h s (Some env))
     | StringLiteral s \<Rightarrow> Some (Inr (VStr s))
     | LambdaExpr ps b \<Rightarrow> Some (Inr (VClosure ps b env))
     | IfExpr cs ts alt \<Rightarrow> eval_if (eval_expr h n) h (zip cs ts) alt env
     | CallExpr f args \<Rightarrow> eval_call (eval_expr h n) h f args env)"

definition eval :: "'f host \<Rightarrow> nat \<Rightarrow> 'f expr \<Rightarrow> 'f result option" where
  "eval h n e = eval_expr h n e base_env"


section \<open>Vocabulary of the specification\<close>

subsection \<open>The failure taxonomy\<close>

text \<open>
  The specification names the failures \<open>UndefinedIdentifier\<close>, \<open>NotCallable\<close>,
  \<open>ArityMismatch\<close> and \<open>TypeMismatch\<close>. The code raises \<^verbatim>\<open>RuntimeError\<close> for all of
  them; a failure belongs to a kind by its message.
\<close>

definition UndefinedIdentifier :: "string \<Rightarrow> error" where
  "UndefinedIdentifier name = RuntimeError (''Undefined identifier: '' @ name)"

definition NotCallable :: "'f host \<Rightarrow> 'f val \<Rightarrow> error" where
  "NotCallable h v = RuntimeError (''Unsupported operator: '' @ py_str h v)"

definition is_ArityMismatch :: "error \<Rightarrow> bool" where
  "is_ArityMismatch e \<longleftrightarrow>
     e = RuntimeError ''Expected 2 arguments'' \<or>
     e = RuntimeError ''Expected 1 arguments'' \<or>
     e = RuntimeError ''Argument count mismatch''"

definition is_TypeMismatch :: "error \<Rightarrow> bool" where
  "is_TypeMismatch e \<longleftrightarrow>
     e = RuntimeError ''Expected 2 number arguments'' \<or>
     e = RuntimeError ''Expected 2 boolean arguments'' \<or>
     e = RuntimeError ''Expected 2 string arguments''"

subsection \<open>Arity and operand types of a builtin variant\<close>

fun arity :: "builtin \<Rightarrow> nat" where
  "arity (BoolToBool fn) = 1"
| "arity b = 2"

definition is_number :: "'f val \<Rightarrow> bool" where
  "is_number v \<longleftrightarrow> isinstance_int v \<or> isinstance_float v"

fun accepts :: "builtin \<Rightarrow> 'f val \<Rightarrow> bool" where
  "accepts (NumberNumberToNumber fn) v = is_number v"
| "accepts (NumberNumberToBool fn) v = is_number v"
| "accepts (BoolBoolToBool fn) v = isinstance_bool v"
| "accepts (BoolToBool fn) v = isinstance_bool v"
| "accepts (StringStringToString fn) v = isinstance_str v"

fun kind_name :: "builtin \<Rightarrow> string" where
  "kind_name (NumberNumberToNumber fn) = ''number''"
| "kind_name (NumberNumberToBool fn) = ''number''"
| "kind_name (BoolBoolToBool fn) = ''boolean''"
| "kind_name (BoolToBool fn) = ''boolean''"
| "kind_name (StringStringToString fn) = ''string''"

definition callable :: "'f val \<Rightarrow> bool" where
  "callable v \<longleftrightarrow> (case v of VBuiltin b \<Rightarrow> True | VClosure ps bd cenv \<Rightarrow> True | _ \<Rightarrow> False)"

subsection \<open>The frame chain\<close>

text \<open>The frames from a frame outward to the root, innermost first.\<close>

fun chain :: "'f frame \<Rightarrow> 'f frame list" where
  "chain (Frame b p) = Frame b p # (case p of None \<Rightarrow> [] | Some f \<Rightarrow> chain f)"

subsection \<open>A host to run examples on\<close>

text \<open>
  The theorems below hold for every host. Examples are run on this one: the keywords
  are spelled \<^verbatim>\<open>true\<close> and \<^verbatim>\<open>false\<close>, and the floats are the rationals with exact
  arithmetic, so that no conversion overflows and nothing is unordered.
\<close>

definition rat_cmp :: "rat \<Rightarrow> rat \<Rightarrow> cmp option" where
  "rat_cmp x y = Some (if x < y then LT else if x = y then EQ else GT)"

definition exact_host :: "rat host" where
  "exact_host =
     \<lparr> kw_true = ''true'',
       kw_false = ''false'',
       float_of_int = (\<lambda>i. Some (of_int i)),
       fadd = (\<lambda>x y. x + y),
       fsub = (\<lambda>x y. x - y),
       fmul = (\<lambda>x y. x * y),
       fdiv = (\<lambda>x y. x / y),
       int_truediv = (\<lambda>i j. Some (of_int i / of_int j)),
       fcmp = rat_cmp,
       ifcmp = (\<lambda>i y. rat_cmp (of_int i) y),
       ftruthy = (\<lambda>x. x \<noteq> 0),
       frepr = (\<lambda>x. str_int (fst (quotient_of x)) @ ''/'' @ str_int (snd (quotient_of x))) \<rparr>"


section \<open>Builtin calls\<close>

lemma is_number_iff: "is_number v \<longleftrightarrow> as_number v \<noteq> None"
  by (cases v) (simp_all add: is_number_def)

lemma eval_call_builtin_arity:
  "length args \<noteq> arity b \<Longrightarrow>
     eval_call_builtin h b args = Inl (RuntimeError (''Expected '' @ str_nat (arity b) @ '' arguments''))"
  by (cases b) (auto simp: str_nat.simps split: list.splits)

lemma eval_call_builtin_type:
  "length args = arity b \<Longrightarrow> \<exists>v\<in>set args. \<not> accepts b v \<Longrightarrow>
     eval_call_builtin h b args = Inl (RuntimeError (''Expected 2 '' @ kind_name b @ '' arguments''))"
  by (cases b) (auto simp: is_number_iff split: list.splits option.splits val.splits)

lemma nn_apply_error:
  "nn_apply h f x y = Inl e \<Longrightarrow> e = ZeroDivisionError \<or> e = OverflowError"
  by (cases x; cases y; cases f) (auto split: option.splits if_splits)

lemma bb_apply_value [simp]: "bb_apply f a b \<noteq> Inl e"
  by (cases f) simp_all

lemma b_apply_value [simp]: "b_apply f a \<noteq> Inl e"
  by (cases f) simp_all

lemma ss_apply_value [simp]: "ss_apply f a b \<noteq> Inl e"
  by (cases f) simp_all

lemma eval_call_builtin_accepted:
  "length args = arity b \<Longrightarrow> \<forall>v\<in>set args. accepts b v \<Longrightarrow> eval_call_builtin h b args = Inl e
     \<Longrightarrow> e = ZeroDivisionError \<or> e = OverflowError"
  apply (cases b)
  apply (auto simp: is_number_iff nb_apply_def split: list.splits option.splits val.splits dest: nn_apply_error)
  done

text \<open>
  Claim C3, as amended. A builtin call first checks the number of arguments against
  the arity of the variant (2, and 1 for \<open>BoolToBool\<close>): a different count fails with an
  \<open>ArityMismatch\<close>, as \<^verbatim>\<open>not\<close> on two arguments does. Then it checks the dynamic type
  of every argument: a number variant accepts an integer, a float and also a boolean
  (a \<^verbatim>\<open>bool\<close> is an \<^verbatim>\<open>int\<close> for \<^verbatim>\<open>isinstance\<close>), the boolean variants accept a boolean, the
  string variant accepts a string; an argument of any other kind fails with a
  \<open>TypeMismatch\<close>, as \<^verbatim>\<open>+\<close> on \<^verbatim>\<open>(1, "a")\<close> does. When both checks pass, the call is the
  native function on the arguments, and the only failures left are those of the
  native function.
\<close>

theorem builtin_call_checks:
  "(length args \<noteq> arity b \<longrightarrow>
      (\<exists>e. eval_call_builtin h b args = Inl e \<and> is_ArityMismatch e)) \<and>
   (length args = arity b \<and> (\<exists>v\<in>set args. \<not> accepts b v) \<longrightarrow>
      (\<exists>e. eval_call_builtin h b args = Inl e \<and> is_TypeMismatch e)) \<and>
   (length args = arity b \<and> (\<forall>v\<in>set args. accepts b v) \<longrightarrow>
      (\<forall>e. eval_call_builtin h b args = Inl e \<longrightarrow> \<not> is_ArityMismatch e \<and> \<not> is_TypeMismatch e)) \<and>
   (accepts (NumberNumberToNumber nn) v \<longleftrightarrow>
      (\<exists>i. v = VInt i) \<or> (\<exists>r. v = VFloat r) \<or> (\<exists>t. v = VBool t)) \<and>
   (accepts (NumberNumberToBool nb) v \<longleftrightarrow>
      (\<exists>i. v = VInt i) \<or> (\<exists>r. v = VFloat r) \<or> (\<exists>t. v = VBool t)) \<and>
   (accepts (BoolBoolToBool bb) v \<longleftrightarrow> (\<exists>t. v = VBool t)) \<and>
   (accepts (BoolToBool bf) v \<longleftrightarrow> (\<exists>t. v = VBool t)) \<and>
   (accepts (StringStringToString sf) v \<longleftrightarrow> (\<exists>s. v = VStr s)) \<and>
   (as_number a1 = Some x \<and> as_number a2 = Some y \<longrightarrow>
      eval_call_builtin h (NumberNumberToNumber nn) [a1, a2] = nn_apply h nn x y \<and>
      eval_call_builtin h (NumberNumberToBool nb) [a1, a2] = nb_apply h nb x y) \<and>
   eval_call_builtin h (BoolBoolToBool bb) [VBool p, VBool q] = bb_apply bb p q \<and>
   eval_call_builtin h (BoolToBool bf) [VBool p] = b_apply bf p \<and>
   eval_call_builtin h (StringStringToString sf) [VStr s, VStr t] = ss_apply sf s t \<and>
   eval_call_builtin h (NumberNumberToNumber Add) [VInt 1, VStr ''a''] =
     Inl (RuntimeError ''Expected 2 number arguments'') \<and>
   eval_call_builtin h (BoolToBool Not) [VBool True, VBool False] =
     Inl (RuntimeError ''Expected 1 arguments'')"
proof -
  have ar: "length args \<noteq> arity b \<longrightarrow>
      (\<exists>e. eval_call_builtin h b args = Inl e \<and> is_ArityMismatch e)"
  proof
    assume "length args \<noteq> arity b"
    then have "eval_call_builtin h b args =
        Inl (RuntimeError (''Expected '' @ str_nat (arity b) @ '' arguments''))"
      by (rule eval_call_builtin_arity)
    moreover have "is_ArityMismatch (RuntimeError (''Expected '' @ str_nat (arity b) @ '' arguments''))"
      by (cases b) (simp_all add: is_ArityMismatch_def str_nat.simps)
    ultimately show "\<exists>e. eval_call_builtin h b args = Inl e \<and> is_ArityMismatch e"
      by blast
  qed
  have ty: "length args = arity b \<and> (\<exists>v\<in>set args. \<not> accepts b v) \<longrightarrow>
      (\<exists>e. eval_call_builtin h b args = Inl e \<and> is_TypeMismatch e)"
  proof
    assume "length args = arity b \<and> (\<exists>v\<in>set args. \<not> accepts b v)"
    then have "eval_call_builtin h b args =
        Inl (RuntimeError (''Expected 2 '' @ kind_name b @ '' arguments''))"
      by (simp only: eval_call_builtin_type)
    moreover have "is_TypeMismatch (RuntimeError (''Expected 2 '' @ kind_name b @ '' arguments''))"
      by (cases b) (simp_all add: is_TypeMismatch_def)
    ultimately show "\<exists>e. eval_call_builtin h b args = Inl e \<and> is_TypeMismatch e"
      by blast
  qed
  have ok: "length args = arity b \<and> (\<forall>v\<in>set args. accepts b v) \<longrightarrow>
      (\<forall>e. eval_call_builtin h b args = Inl e \<longrightarrow> \<not> is_ArityMismatch e \<and> \<not> is_TypeMismatch e)"
    using eval_call_builtin_accepted [of args b h]
    by (auto simp: is_ArityMismatch_def is_TypeMismatch_def)
  have kinds: "(accepts (NumberNumberToNumber nn) v \<longleftrightarrow>
      (\<exists>i. v = VInt i) \<or> (\<exists>r. v = VFloat r) \<or> (\<exists>t. v = VBool t)) \<and>
   (accepts (NumberNumberToBool nb) v \<longleftrightarrow>
      (\<exists>i. v = VInt i) \<or> (\<exists>r. v = VFloat r) \<or> (\<exists>t. v = VBool t)) \<and>
   (accepts (BoolBoolToBool bb) v \<longleftrightarrow> (\<exists>t. v = VBool t)) \<and>
   (accepts (BoolToBool bf) v \<longleftrightarrow> (\<exists>t. v = VBool t)) \<and>
   (accepts (StringStringToString sf) v \<longleftrightarrow> (\<exists>s. v = VStr s))"
    by (cases v) (simp_all add: is_number_def)
  have native: "(as_number a1 = Some x \<and> as_number a2 = Some y \<longrightarrow>
      eval_call_builtin h (NumberNumberToNumber nn) [a1, a2] = nn_apply h nn x y \<and>
      eval_call_builtin h (NumberNumberToBool nb) [a1, a2] = nb_apply h nb x y) \<and>
   eval_call_builtin h (BoolBoolToBool bb) [VBool p, VBool q] = bb_apply bb p q \<and>
   eval_call_builtin h (BoolToBool bf) [VBool p] = b_apply bf p \<and>
   eval_call_builtin h (StringStringToString sf) [VStr s, VStr t] = ss_apply sf s t"
    by simp
  have examples: "eval_call_builtin h (NumberNumberToNumber Add) [VInt 1, VStr ''a''] =
     Inl (RuntimeError ''Expected 2 number arguments'') \<and>
   eval_call_builtin h (BoolToBool Not) [VBool True, VBool False] =
     Inl (RuntimeError ''Expected 1 arguments'')"
    by simp
  from ar ty ok kinds native examples show ?thesis
    by (elim conjE, intro conjI)
qed

theorem builtin_call_checks_witness:
  "eval_call_builtin exact_host (NumberNumberToNumber Add) [VInt 1, VStr ''a''] =
     Inl (RuntimeError ''Expected 2 number arguments'') \<and>
   is_TypeMismatch (RuntimeError ''Expected 2 number arguments'') \<and>
   eval_call_builtin exact_host (BoolToBool Not) [VBool True, VBool False] =
     Inl (RuntimeError ''Expected 1 arguments'') \<and>
   is_ArityMismatch (RuntimeError ''Expected 1 arguments'') \<and>
   eval_call_builtin exact_host (NumberNumberToNumber Add) [VInt 1, VInt 2] = Inr (VInt 3) \<and>
   eval_call_builtin exact_host (StringStringToString Concat) [VStr ''ab'', VStr ''c''] =
     Inr (VStr ''abc'')"
  using builtin_call_checks [where args = "[VInt 1, VStr ''a'']" and b = "NumberNumberToNumber Add"
      and h = exact_host and ?a1.0 = "VInt 1" and x = "NInt 1" and ?a2.0 = "VInt 2" and y = "NInt 2"
      and nn = Add and nb = Eq and bb = And and p = True and q = True and bf = Not
      and sf = Concat and s = "''ab''" and t = "''c''" and v = "VInt 1"]
  by (simp add: is_TypeMismatch_def is_ArityMismatch_def)

text \<open>
  Claim C3 as stated fails: it lets a number variant accept an integer or a float and
  fail with a \<open>TypeMismatch\<close> on every other kind of value. \<^verbatim>\<open>+\<close> on \<^verbatim>\<open>(true, 1)\<close>, whose
  first argument is a boolean, fails with no \<open>TypeMismatch\<close>: it returns 2.
\<close>

theorem boolean_operand_counterexample:
  "eval_call_builtin exact_host (NumberNumberToNumber Add) [VBool True, VInt 1] = Inr (VInt 2) \<and>
   (\<forall>i. VBool True \<noteq> (VInt i :: rat val)) \<and>
   (\<forall>r. VBool True \<noteq> (VFloat r :: rat val)) \<and>
   \<not> (\<exists>e. eval_call_builtin exact_host (NumberNumberToNumber Add) [VBool True, VInt 1] = Inl e
          \<and> is_TypeMismatch e)"
  by simp

text \<open>
  Claim C9, as amended. On two integers \<^verbatim>\<open>+\<close>, \<^verbatim>\<open>-\<close> and \<^verbatim>\<open>*\<close> return the exact integer.
  \<^verbatim>\<open>/\<close> on two integers never returns an integer: it raises \<^verbatim>\<open>ZeroDivisionError\<close> when
  the divisor is zero, \<^verbatim>\<open>OverflowError\<close> when the host cannot represent the quotient, and
  returns the host's float quotient otherwise. On an integer and a float, in either
  order, the integer is converted first (\<^verbatim>\<open>OverflowError\<close> when it is too large); then
  every arithmetic builtin returns a float, except \<^verbatim>\<open>/\<close> by a zero divisor, which raises
  \<^verbatim>\<open>ZeroDivisionError\<close>.
\<close>

theorem arithmetic_result_kinds:
  "eval_call_builtin h (NumberNumberToNumber Add) [VInt i, VInt j] = Inr (VInt (i + j)) \<and>
   eval_call_builtin h (NumberNumberToNumber Sub) [VInt i, VInt j] = Inr (VInt (i - j)) \<and>
   eval_call_builtin h (NumberNumberToNumber Mul) [VInt i, VInt j] = Inr (VInt (i * j)) \<and>
   eval_call_builtin h (NumberNumberToNumber Div) [VInt i, VInt 0] = Inl ZeroDivisionError \<and>
   (j \<noteq> 0 \<and> int_truediv h i j = None \<longrightarrow>
      eval_call_builtin h (NumberNumberToNumber Div) [VInt i, VInt j] = Inl OverflowError) \<and>
   (j \<noteq> 0 \<and> int_truediv h i j = Some q \<longrightarrow>
      eval_call_builtin h (NumberNumberToNumber Div) [VInt i, VInt j] = Inr (VFloat q)) \<and>
   (\<forall>k. eval_call_builtin h (NumberNumberToNumber Div) [VInt i, VInt j] \<noteq> Inr (VInt k)) \<and>
   (float_of_int h i = None \<longrightarrow>
      eval_call_builtin h (NumberNumberToNumber nn) [VInt i, VFloat y] = Inl OverflowError \<and>
      eval_call_builtin h (NumberNumberToNumber nn) [VFloat y, VInt i] = Inl OverflowError) \<and>
   (float_of_int h i = Some x \<and> (nn = Div \<longrightarrow> ftruthy h y) \<longrightarrow>
      (\<exists>z. eval_call_builtin h (NumberNumberToNumber nn) [VInt i, VFloat y] = Inr (VFloat z))) \<and>
   (float_of_int h i = Some x \<and> (nn = Div \<longrightarrow> ftruthy h x) \<longrightarrow>
      (\<exists>z. eval_call_builtin h (NumberNumberToNumber nn) [VFloat y, VInt i] = Inr (VFloat z))) \<and>
   (float_of_int h i = Some x \<and> \<not> ftruthy h y \<longrightarrow>
      eval_call_builtin h (NumberNumberToNumber Div) [VInt i, VFloat y] = Inl ZeroDivisionError) \<and>
   (float_of_int h i = Some x \<and> \<not> ftruthy h x \<longrightarrow>
      eval_call_builtin h (NumberNumberToNumber Div) [VFloat y, VInt i] = Inl ZeroDivisionError)"
proof -
  have ints: "eval_call_builtin h (NumberNumberToNumber Add) [VInt i, VInt j] = Inr (VInt (i + j)) \<and>
   eval_call_builtin h (NumberNumberToNumber Sub) [VInt i, VInt j] = Inr (VInt (i - j)) \<and>
   eval_call_builtin h (NumberNumberToNumber Mul) [VInt i, VInt j] = Inr (VInt (i * j)) \<and>
   eval_call_builtin h (NumberNumberToNumber Div) [VInt i, VInt 0] = Inl ZeroDivisionError"
    by simp
  have divs: "(j \<noteq> 0 \<and> int_truediv h i j = None \<longrightarrow>
      eval_call_builtin h (NumberNumberToNumber Div) [VInt i, VInt j] = Inl OverflowError) \<and>
   (j \<noteq> 0 \<and> int_truediv h i j = Some q \<longrightarrow>
      eval_call_builtin h (NumberNumberToNumber Div) [VInt i, VInt j] = Inr (VFloat q)) \<and>
   (\<forall>k. eval_call_builtin h (NumberNumberToNumber Div) [VInt i, VInt j] \<noteq> Inr (VInt k))"
    by (simp split: option.splits)
  have ovf: "float_of_int h i = None \<longrightarrow>
      eval_call_builtin h (NumberNumberToNumber nn) [VInt i, VFloat y] = Inl OverflowError \<and>
      eval_call_builtin h (NumberNumberToNumber nn) [VFloat y, VInt i] = Inl OverflowError"
    by simp
  have mixed1: "float_of_int h i = Some x \<and> (nn = Div \<longrightarrow> ftruthy h y) \<longrightarrow>
      (\<exists>z. eval_call_builtin h (NumberNumberToNumber nn) [VInt i, VFloat y] = Inr (VFloat z))"
    by (cases nn) simp_all
  have mixed2: "float_of_int h i = Some x \<and> (nn = Div \<longrightarrow> ftruthy h x) \<longrightarrow>
      (\<exists>z. eval_call_builtin h (NumberNumberToNumber nn) [VFloat y, VInt i] = Inr (VFloat z))"
    by (cases nn) simp_all
  have zero: "(float_of_int h i = Some x \<and> \<not> ftruthy h y \<longrightarrow>
      eval_call_builtin h (NumberNumberToNumber Div) [VInt i, VFloat y] = Inl ZeroDivisionError) \<and>
   (float_of_int h i = Some x \<and> \<not> ftruthy h x \<longrightarrow>
      eval_call_builtin h (NumberNumberToNumber Div) [VFloat y, VInt i] = Inl ZeroDivisionError)"
    by simp
  from ints divs ovf mixed1 mixed2 zero show ?thesis by blast
qed

theorem arithmetic_result_kinds_witness:
  "eval_call_builtin exact_host (NumberNumberToNumber Div) [VInt 1, VInt 2] = Inr (VFloat (1 / 2)) \<and>
   eval_call_builtin exact_host (NumberNumberToNumber Mul) [VInt 6, VInt 7] = Inr (VInt 42) \<and>
   (\<exists>z. eval_call_builtin exact_host (NumberNumberToNumber Add) [VInt 1, VFloat (1 / 2)] = Inr (VFloat z))"
  using arithmetic_result_kinds [of exact_host 1 2 "1 / 2" Add "1 / 2" 1]
    arithmetic_result_kinds [of exact_host 6 7]
  by (simp add: exact_host_def)

text \<open>
  Claim C9 as stated fails: \<^verbatim>\<open>/\<close> on the integers 1 and 0 returns no float, it raises
  \<^verbatim>\<open>ZeroDivisionError\<close>.
\<close>

theorem division_by_zero_counterexample:
  "eval_call_builtin exact_host (NumberNumberToNumber Div) [VInt 1, VInt 0] = Inl ZeroDivisionError \<and>
   \<not> (\<exists>q. eval_call_builtin exact_host (NumberNumberToNumber Div) [VInt 1, VInt 0] = Inr (VFloat q))"
  by simp

text \<open>
  Claim C10. Booleans pass the type check of the number variants, since
  \<^verbatim>\<open>isinstance(True, int)\<close> holds. The call then is the native function on the
  booleans acting as the integers 0 and 1: it gives what the same call on those
  integers gives, so a comparison returns a boolean, \<^verbatim>\<open>+\<close> on \<^verbatim>\<open>(true, true)\<close> returns
  the integer 2 and \<^verbatim>\<open>=\<close> on \<^verbatim>\<open>(true, 1)\<close> returns true. No failure of such a call is a
  \<open>TypeMismatch\<close> (the only failures are those of the host's division).
\<close>

theorem bool_operands_are_numbers:
  "is_number (VBool a) \<and>
   eval_call_builtin h (NumberNumberToNumber nn) [VBool a, VBool b] =
     int_arith h nn (if a then 1 else 0) (if b then 1 else 0) \<and>
   eval_call_builtin h (NumberNumberToNumber nn) [VBool a, VBool b] =
     eval_call_builtin h (NumberNumberToNumber nn) [VInt (if a then 1 else 0), VInt (if b then 1 else 0)] \<and>
   eval_call_builtin h (NumberNumberToBool nb) [VBool a, VBool b] =
     eval_call_builtin h (NumberNumberToBool nb) [VInt (if a then 1 else 0), VInt (if b then 1 else 0)] \<and>
   (\<exists>v. eval_call_builtin h (NumberNumberToBool nb) [VBool a, VBool b] = Inr (VBool v)) \<and>
   (\<forall>e. eval_call_builtin h (NumberNumberToNumber nn) [VBool a, VBool b] = Inl e \<longrightarrow>
        \<not> is_TypeMismatch e \<and> \<not> is_ArityMismatch e) \<and>
   eval_call_builtin h (NumberNumberToNumber Add) [VBool True, VBool True] = Inr (VInt 2) \<and>
   eval_call_builtin h (NumberNumberToBool Eq) [VBool True, VInt 1] = Inr (VBool True)"
proof -
  have "int_arith h nn i j = Inl e \<Longrightarrow> \<not> is_TypeMismatch e \<and> \<not> is_ArityMismatch e" for i j e
    by (cases nn) (auto simp: is_TypeMismatch_def is_ArityMismatch_def split: if_splits option.splits)
  then show ?thesis
    by (simp add: is_number_def nb_apply_def)
qed

theorem bool_operands_are_numbers_witness:
  "eval_call_builtin exact_host (NumberNumberToNumber Div) [VBool True, VBool False] = Inl ZeroDivisionError \<and>
   \<not> is_TypeMismatch ZeroDivisionError \<and>
   eval_call_builtin exact_host (NumberNumberToNumber Add) [VBool True, VBool True] = Inr (VInt 2) \<and>
   eval_call_builtin exact_host (NumberNumberToBool Lt) [VBool False, VBool True] = Inr (VBool True)"
  using bool_operands_are_numbers [of True exact_host Div False Lt]
  by (simp add: is_TypeMismatch_def nb_apply_def)


section \<open>Facts about call frames\<close>

lemma fold_upd_map_of:
  "fold (\<lambda>(p, v) m. m(p \<mapsto> v)) xs m0 = m0 ++ map_of (rev xs)"
proof -
  define f :: "'a \<times> 'b \<Rightarrow> ('a \<Rightarrow> 'b option) \<Rightarrow> ('a \<Rightarrow> 'b option)"
    where "f = (\<lambda>(p, v) m. m(p \<mapsto> v))"
  have f: "f (p, v) m = m(p \<mapsto> v)" for p v m
    by (simp add: f_def)
  have "fold f xs m0 = m0 ++ map_of (rev xs)" for m0
  proof (induction xs arbitrary: m0)
    case Nil
    show ?case by simp
  next
    case (Cons x xs)
    obtain p v where x: "x = (p, v)" by (cases x)
    have "m0(p \<mapsto> v) ++ map_of (rev xs) = m0 ++ (map_of (rev xs @ [(p, v)]))"
      by (simp add: fun_eq_iff map_add_def split: option.splits)
    then show ?case using Cons.IH [of "m0(p \<mapsto> v)"] by (simp only: x fold_simps f rev.simps comp_apply)
  qed
  then show ?thesis by (simp only: f_def)
qed

lemma dict_zip_map_of: "dict_zip ps vs = map_of (rev (zip ps vs))"
  by (simp add: dict_zip_def fold_upd_map_of)

lemma dom_dict_zip: "length vs = length ps \<Longrightarrow> dom (dict_zip ps vs) = set ps"
  by (simp add: dict_zip_map_of dom_map_of_conv_image_fst flip: set_map)

lemma map_of_rev_last_occurrence:
  assumes "i < length xs" "fst (xs ! i) \<notin> fst ` set (drop (Suc i) xs)"
  shows "map_of (rev xs) (fst (xs ! i)) = Some (snd (xs ! i))"
proof -
  have xs: "xs = take i xs @ xs ! i # drop (Suc i) xs"
    using assms(1) by (simp add: id_take_nth_drop)
  have none: "map_of (rev (drop (Suc i) xs)) (fst (xs ! i)) = None"
    using assms(2) by (simp add: map_of_eq_None_iff)
  have "map_of (rev xs) (fst (xs ! i)) =
      map_of (rev (drop (Suc i) xs) @ (xs ! i # rev (take i xs))) (fst (xs ! i))"
    by (subst xs) simp
  also have "\<dots> = Some (snd (xs ! i))"
    using none by (simp add: map_add_def del: rev_drop)
  finally show ?thesis .
qed

lemma dict_zip_last_occurrence:
  assumes "length vs = length ps" "i < length ps" "ps ! i \<notin> set (drop (Suc i) ps)"
  shows "dict_zip ps vs (ps ! i) = Some (vs ! i)"
proof -
  have "fst ` set (drop (Suc i) (zip ps vs)) \<subseteq> set (drop (Suc i) ps)"
    by (auto simp: drop_zip dest: set_zip_leftD)
  then have "fst (zip ps vs ! i) \<notin> fst ` set (drop (Suc i) (zip ps vs))"
    using assms by auto
  then have "map_of (rev (zip ps vs)) (fst (zip ps vs ! i)) = Some (snd (zip ps vs ! i))"
    using assms by (intro map_of_rev_last_occurrence) simp_all
  then show ?thesis using assms by (simp add: dict_zip_map_of)
qed

lemma distinct_not_later: "distinct ps \<Longrightarrow> i < length ps \<Longrightarrow> ps ! i \<notin> set (drop (Suc i) ps)"
  by (metis Cons_nth_drop_Suc distinct.simps(2) distinct_drop)

lemma dict_zip_distinct:
  "distinct ps \<Longrightarrow> length vs = length ps \<Longrightarrow> i < length ps \<Longrightarrow> dict_zip ps vs (ps ! i) = Some (vs ! i)"
  by (simp add: dict_zip_last_occurrence distinct_not_later)

lemma get_child_env_other:
  "name \<notin> set ps \<Longrightarrow> length vs = length ps \<Longrightarrow> get (child_env ps vs cenv) name = get cenv name"
proof -
  assume "name \<notin> set ps" "length vs = length ps"
  then have "dict_zip ps vs name = None"
    using dom_dict_zip [of vs ps] by blast
  then show ?thesis by (simp add: child_env_def)
qed

section \<open>Facts about frame lookup\<close>

lemma get_chain:
  "get f name =
     (case List.map_filter (\<lambda>g. bindings g name) (chain f) of [] \<Rightarrow> None | v # _ \<Rightarrow> Some v)"
proof (induction f name rule: get.induct)
  case (1 b p name)
  show ?case
  proof (cases "b name")
    case (Some v)
    then show ?thesis by (simp add: List.map_filter_simps)
  next
    case None
    show ?thesis
    proof (cases p)
      case pn: None
      with None show ?thesis by (simp add: List.map_filter_simps)
    next
      case (Some g)
      with None 1 show ?thesis by (simp add: List.map_filter_simps)
    qed
  qed
qed

lemma get_None_iff: "get f name = None \<longleftrightarrow> (\<forall>g\<in>set (chain f). bindings g name = None)"
proof (induction f name rule: get.induct)
  case (1 b p name)
  show ?case
    using 1 by (cases "b name"; cases p) auto
qed

section \<open>Facts about the loop of a conditional\<close>

lemma eval_if_skip:
  "k \<le> length cs \<Longrightarrow> k \<le> length ts \<Longrightarrow>
   \<forall>j<k. \<exists>v. ev (cs ! j) env = Some (Inr v) \<and> \<not> truthy h v \<Longrightarrow>
   eval_if ev h (zip cs ts) alt env = eval_if ev h (zip (drop k cs) (drop k ts)) alt env"
proof (induction k arbitrary: cs ts)
  case 0
  show ?case by simp
next
  case (Suc k)
  obtain c cs' where cs: "cs = c # cs'" using Suc.prems(1) by (cases cs) auto
  obtain t ts' where ts: "ts = t # ts'" using Suc.prems(2) by (cases ts) auto
  from Suc.prems(3) have c: "\<exists>v. ev c env = Some (Inr v) \<and> \<not> truthy h v"
    by (auto simp: cs)
  have rest: "\<forall>j<k. \<exists>v. ev (cs' ! j) env = Some (Inr v) \<and> \<not> truthy h v"
    using Suc.prems(3) by (auto simp: cs)
  have "eval_if ev h (zip cs' ts') alt env = eval_if ev h (zip (drop k cs') (drop k ts')) alt env"
    using Suc.prems(1,2) rest by (intro Suc.IH) (simp_all add: cs ts)
  then show ?case using c by (auto simp: cs ts)
qed

section \<open>Facts about argument lists\<close>

lemma eval_args_values:
  "length vs = length args \<Longrightarrow> \<forall>j<length args. ev (args ! j) env = Some (Inr (vs ! j)) \<Longrightarrow>
   eval_args ev args env = Some (Inr vs)"
proof (induction args arbitrary: vs)
  case Nil
  then show ?case by simp
next
  case (Cons a as)
  then obtain v vs' where vs: "vs = v # vs'" by (cases vs) auto
  have "ev a env = Some (Inr v)" using Cons.prems(2) by (auto simp: vs)
  moreover have "eval_args ev as env = Some (Inr vs')"
    using Cons.prems by (intro Cons.IH) (auto simp: vs)
  ultimately show ?case by (simp add: vs)
qed

lemma eval_args_first_failure:
  "k < length args \<Longrightarrow> \<forall>j<k. \<exists>v. ev (args ! j) env = Some (Inr v) \<Longrightarrow>
   ev (args ! k) env = Some (Inl e) \<Longrightarrow> eval_args ev args env = Some (Inl e)"
proof (induction args arbitrary: k)
  case Nil
  then show ?case by simp
next
  case (Cons a as)
  show ?case
  proof (cases k)
    case 0
    with Cons.prems show ?thesis by simp
  next
    case (Suc k')
    from Cons.prems(2) obtain v where v: "ev a env = Some (Inr v)" by (auto simp: Suc)
    have "eval_args ev as env = Some (Inl e)"
      using Cons.prems by (intro Cons.IH [of k']) (auto simp: Suc)
    with v show ?thesis by simp
  qed
qed

lemma eval_args_first_timeout:
  "k < length args \<Longrightarrow> \<forall>j<k. \<exists>v. ev (args ! j) env = Some (Inr v) \<Longrightarrow>
   ev (args ! k) env = None \<Longrightarrow> eval_args ev args env = None"
proof (induction args arbitrary: k)
  case Nil
  then show ?case by simp
next
  case (Cons a as)
  show ?case
  proof (cases k)
    case 0
    with Cons.prems show ?thesis by simp
  next
    case (Suc k')
    from Cons.prems(2) obtain v where v: "ev a env = Some (Inr v)" by (auto simp: Suc)
    have "eval_args ev as env = None"
      using Cons.prems by (intro Cons.IH [of k']) (auto simp: Suc)
    with v show ?thesis by simp
  qed
qed

section \<open>A deeper bound keeps every result\<close>

text \<open>
  Once the evaluator has returned within a depth, be it a value or a failure, it
  returns the same within every larger depth: the bound only cuts off, it never changes
  a result.
\<close>

lemma eval_if_mono:
  assumes "\<And>e env r. ev e env = Some r \<Longrightarrow> ev' e env = Some r"
  shows "eval_if ev h cts alt env = Some r \<Longrightarrow> eval_if ev' h cts alt env = Some r"
proof (induction cts)
  case Nil
  then show ?case using assms by simp
next
  case (Cons ct cts)
  obtain c t where ct: "ct = (c, t)" by (cases ct)
  from Cons.prems obtain rc where rc: "ev c env = Some rc"
    by (auto simp: ct split: option.splits)
  then have rc': "ev' c env = Some rc" by (rule assms)
  show ?case
  proof (cases rc)
    case (Inl e)
    with Cons.prems rc rc' show ?thesis by (auto simp: ct)
  next
    case (Inr v)
    with Cons.prems rc rc' Cons.IH assms show ?thesis
      by (auto simp: ct split: if_splits)
  qed
qed

lemma eval_args_mono:
  assumes "\<And>e env r. ev e env = Some r \<Longrightarrow> ev' e env = Some r"
  shows "eval_args ev as env = Some r \<Longrightarrow> eval_args ev' as env = Some r"
proof (induction as arbitrary: r)
  case Nil
  then show ?case by simp
next
  case (Cons a as)
  from Cons.prems obtain ra where ra: "ev a env = Some ra"
    by (auto split: option.splits)
  then have ra': "ev' a env = Some ra" by (rule assms)
  show ?case
  proof (cases ra)
    case (Inl e)
    with Cons.prems ra ra' show ?thesis by auto
  next
    case (Inr v)
    with Cons.prems ra obtain rs where rs: "eval_args ev as env = Some rs"
      by (auto split: option.splits)
    then have "eval_args ev' as env = Some rs" by (rule Cons.IH)
    with Cons.prems ra ra' rs Inr show ?thesis by auto
  qed
qed

lemma eval_call_closure_mono:
  assumes "\<And>e env r. ev e env = Some r \<Longrightarrow> ev' e env = Some r"
  shows "eval_call_closure ev ps bd cenv vs = Some r \<Longrightarrow> eval_call_closure ev' ps bd cenv vs = Some r"
  using assms by (auto simp: eval_call_closure_def split: if_splits)

lemma eval_call_mono:
  assumes mono: "\<And>e env r. ev e env = Some r \<Longrightarrow> ev' e env = Some r"
    and call: "eval_call ev h f args env = Some r"
  shows "eval_call ev' h f args env = Some r"
proof -
  from call obtain rf where rf: "ev f env = Some rf"
    by (auto simp: eval_call_def split: option.splits)
  then have rf': "ev' f env = Some rf" by (rule mono)
  show ?thesis
  proof (cases rf)
    case (Inl e)
    with call rf rf' show ?thesis by (auto simp: eval_call_def)
  next
    case (Inr opv)
    with call rf obtain ra where ra: "eval_args ev args env = Some ra"
      by (auto simp: eval_call_def split: option.splits)
    then have ra': "eval_args ev' args env = Some ra"
      using mono by (rule eval_args_mono [rotated])
    show ?thesis
    proof (cases ra)
      case (Inl e)
      with call rf rf' ra ra' Inr show ?thesis by (auto simp: eval_call_def)
    next
      case vs: (Inr vs)
      show ?thesis
      proof (cases opv)
        case (VClosure ps bd cenv)
        with call rf ra Inr vs have "eval_call_closure ev ps bd cenv vs = Some r"
          by (auto simp: eval_call_def)
        then have "eval_call_closure ev' ps bd cenv vs = Some r"
          using mono by (rule eval_call_closure_mono [rotated])
        with rf' ra' Inr vs VClosure show ?thesis by (auto simp: eval_call_def)
      qed (use call rf rf' ra ra' Inr vs in \<open>auto simp: eval_call_def\<close>)
    qed
  qed
qed

lemma eval_expr_Suc:
  "eval_expr h n e env = Some r \<Longrightarrow> eval_expr h (Suc n) e env = Some r"
proof (induction n arbitrary: e env r)
  case 0
  then show ?case by simp
next
  case (Suc n)
  have mono: "\<And>e env r. eval_expr h n e env = Some r \<Longrightarrow> eval_expr h (Suc n) e env = Some r"
    by (rule Suc.IH)
  show ?case
  proof (cases e)
    case (IfExpr cs ts alt)
    with Suc.prems have "eval_if (eval_expr h n) h (zip cs ts) alt env = Some r" by simp
    then have "eval_if (eval_expr h (Suc n)) h (zip cs ts) alt env = Some r"
      using mono by (rule eval_if_mono [rotated])
    with IfExpr show ?thesis by simp
  next
    case (CallExpr f args)
    with Suc.prems have "eval_call (eval_expr h n) h f args env = Some r" by simp
    with mono have "eval_call (eval_expr h (Suc n)) h f args env = Some r"
      by (rule eval_call_mono)
    with CallExpr show ?thesis by simp
  qed (use Suc.prems in simp_all)
qed

lemma eval_expr_mono:
  "eval_expr h n e env = Some r \<Longrightarrow> n \<le> m \<Longrightarrow> eval_expr h m e env = Some r"
  by (induction m) (auto simp: le_Suc_eq dest: eval_expr_Suc simp del: eval_expr.simps)

section \<open>Symbols\<close>

text \<open>
  Claim C6. A symbol spelled like the true keyword evaluates to the boolean true in
  every environment, whatever the frames bind the name to; one spelled like the false
  keyword (and not like the true keyword, which is tested first) evaluates to the
  boolean false. Any other symbol evaluates to the binding of its name in the first
  frame, from the innermost outward, that has one. The evaluation fails exactly when
  the name is no keyword and no frame of the chain binds it, and the failure is
  \<open>UndefinedIdentifier\<close> with that name.
\<close>

theorem symbol_resolution:
  "eval_expr h (Suc n) (SymbolLiteral name) env = Some (eval_symbol h name (Some env)) \<and>
   (name = kw_true h \<longrightarrow> eval_symbol h name (Some env) = Inr (VBool True)) \<and>
   (name \<noteq> kw_true h \<and> name = kw_false h \<longrightarrow> eval_symbol h name (Some env) = Inr (VBool False)) \<and>
   (name \<noteq> kw_true h \<and> name \<noteq> kw_false h \<longrightarrow>
      eval_symbol h name (Some env) =
        (case List.map_filter (\<lambda>g. bindings g name) (chain env) of
           [] \<Rightarrow> Inl (UndefinedIdentifier name)
         | v # _ \<Rightarrow> Inr v)) \<and>
   ((\<exists>e. eval_symbol h name (Some env) = Inl e) \<longleftrightarrow>
      name \<noteq> kw_true h \<and> name \<noteq> kw_false h \<and> (\<forall>g\<in>set (chain env). bindings g name = None)) \<and>
   (\<forall>e. eval_symbol h name (Some env) = Inl e \<longrightarrow> e = UndefinedIdentifier name)"
proof -
  have lookup: "name \<noteq> kw_true h \<and> name \<noteq> kw_false h \<longrightarrow>
      eval_symbol h name (Some env) =
        (case List.map_filter (\<lambda>g. bindings g name) (chain env) of
           [] \<Rightarrow> Inl (UndefinedIdentifier name)
         | v # _ \<Rightarrow> Inr v)"
    by (simp add: get_chain [of env name] UndefinedIdentifier_def split: list.splits)
  have fails: "(\<exists>e. eval_symbol h name (Some env) = Inl e) \<longleftrightarrow>
      name \<noteq> kw_true h \<and> name \<noteq> kw_false h \<and> (\<forall>g\<in>set (chain env). bindings g name = None)"
    using get_None_iff [of env name] by (auto split: option.splits)
  have carries: "\<forall>e. eval_symbol h name (Some env) = Inl e \<longrightarrow> e = UndefinedIdentifier name"
    by (auto simp: UndefinedIdentifier_def split: option.splits if_splits)
  show ?thesis using lookup fails carries by simp
qed

theorem symbol_resolution_witness:
  "eval_expr exact_host 1 (SymbolLiteral ''true'') (Frame [''true'' \<mapsto> VInt 7] (Some base_env)) =
     Some (Inr (VBool True)) \<and>
   eval_symbol exact_host ''false'' (Some (Frame Map.empty (Some (Frame [''false'' \<mapsto> VInt 7] None)))) =
     Inr (VBool False) \<and>
   eval_symbol exact_host ''x'' (Some (Frame [''y'' \<mapsto> VInt 1] (Some (Frame [''x'' \<mapsto> VInt 3] None)))) =
     Inr (VInt 3) \<and>
   eval_symbol exact_host ''x'' (Some (Frame [''x'' \<mapsto> VInt 1] (Some (Frame [''x'' \<mapsto> VInt 3] None)))) =
     Inr (VInt 1) \<and>
   eval_symbol exact_host ''z'' (Some (Frame [''y'' \<mapsto> VInt 1] (Some (Frame [''x'' \<mapsto> VInt 3] None)))) =
     Inl (UndefinedIdentifier ''z'')"
  using symbol_resolution [of exact_host 0 "''true''" "Frame [''true'' \<mapsto> VInt 7] (Some base_env)"]
    symbol_resolution [of exact_host 0 "''false''" "Frame Map.empty (Some (Frame [''false'' \<mapsto> VInt 7] None))"]
    symbol_resolution [of exact_host 0 "''x''" "Frame [''y'' \<mapsto> VInt 1] (Some (Frame [''x'' \<mapsto> VInt 3] None))"]
    symbol_resolution [of exact_host 0 "''x''" "Frame [''x'' \<mapsto> VInt 1] (Some (Frame [''x'' \<mapsto> VInt 3] None))"]
    symbol_resolution [of exact_host 0 "''z''" "Frame [''y'' \<mapsto> VInt 1] (Some (Frame [''x'' \<mapsto> VInt 3] None))"]
  by (simp add: exact_host_def UndefinedIdentifier_def)

section \<open>The identity closure\<close>

text \<open>
  Claim C7. For a parameter name \<open>x\<close> that is not one of the two keyword spellings (as
  \<^verbatim>\<open>x\<close> is not, for the keywords \<^verbatim>\<open>true\<close> and \<^verbatim>\<open>false\<close>): \<^verbatim>\<open>(lambda (x) x)\<close> evaluates to a
  closure, calling that closure on any value \<open>v\<close> returns \<open>v\<close>, and so does the call
  expression whose argument evaluates to \<open>v\<close>. \<open>v\<close> ranges over all values: integers,
  floats, booleans, strings, builtins and closures.
\<close>

theorem identity_closure:
  assumes "x \<noteq> kw_true h" "x \<noteq> kw_false h"
  shows "eval_expr h (Suc n) (LambdaExpr [x] (SymbolLiteral x)) env =
           Some (Inr (VClosure [x] (SymbolLiteral x) env)) \<and>
         eval_call_closure (eval_expr h (Suc m)) [x] (SymbolLiteral x) env [v] = Some (Inr v) \<and>
         (eval_expr h (Suc n) a env = Some (Inr v) \<longrightarrow>
            eval_expr h (Suc (Suc n)) (CallExpr (LambdaExpr [x] (SymbolLiteral x)) [a]) env =
              Some (Inr v))"
  using assms
  by (simp add: eval_call_closure_def eval_call_def child_env_def dict_zip_def)

theorem identity_closure_witness:
  "''x'' \<noteq> kw_true exact_host \<and> ''x'' \<noteq> kw_false exact_host \<and>
   eval_expr exact_host 3 (CallExpr (LambdaExpr [''x''] (SymbolLiteral ''x'')) [IntLiteral 5]) base_env =
     Some (Inr (VInt 5)) \<and>
   eval_expr exact_host 3 (CallExpr (LambdaExpr [''x''] (SymbolLiteral ''x'')) [SymbolLiteral ''+'']) base_env =
     Some (Inr (VBuiltin (NumberNumberToNumber Add))) \<and>
   eval_call_closure (eval_expr exact_host 1) [''x''] (SymbolLiteral ''x'') base_env
       [VClosure [''y''] (IntLiteral 1) base_env] =
     Some (Inr (VClosure [''y''] (IntLiteral 1) base_env))"
proof -
  have k: "''x'' \<noteq> kw_true exact_host" "''x'' \<noteq> kw_false exact_host"
    by (simp_all add: exact_host_def)
  have a1: "eval_expr exact_host (Suc 1) (IntLiteral 5) base_env = Some (Inr (VInt 5))"
    by simp
  have a2: "eval_expr exact_host (Suc 1) (SymbolLiteral ''+'') base_env =
      Some (Inr (VBuiltin (NumberNumberToNumber Add)))"
    by (simp add: exact_host_def base_env_def BUILTINS_def)
  have n3: "(3::nat) = Suc (Suc 1)" by simp
  show ?thesis
    using k a1 a2
      identity_closure [OF k, of 1 base_env 0 "VInt 5" "IntLiteral 5"]
      identity_closure [OF k, of 1 base_env 0 "VBuiltin (NumberNumberToNumber Add)" "SymbolLiteral ''+''"]
      identity_closure [OF k, of 1 base_env 0 "VClosure [''y''] (IntLiteral 1) base_env" "IntLiteral 5"]
    unfolding n3 by simp
qed

section \<open>Closure calls\<close>

text \<open>
  Claim C1, as amended. A closure call with a number of arguments other than the
  number of parameters fails with an \<open>ArityMismatch\<close>. Otherwise it is the evaluation of
  the body in a new frame: its parent is the frame the closure captured, its bindings
  are the mapping built from the parameters and the arguments paired by position, and
  every other name resolves as in the captured frame. In that mapping every parameter
  name is bound, to the argument at the last position of the name; so when the
  parameter names are pairwise different, every parameter is bound to the argument at
  its own position. The caller's frame is no part of the call: a call expression hands
  the closure and the argument values over and nothing else. So the closure made by
  calling \<^verbatim>\<open>(lambda (x) (lambda (y) x))\<close> on \<open>v\<close>, called later in any frame and at any
  depth on any \<open>w\<close>, returns \<open>v\<close>.
\<close>

theorem closure_call:
  "(length vs \<noteq> length ps \<longrightarrow>
      (\<exists>e. eval_call_closure ev ps bd cenv vs = Some (Inl e) \<and> is_ArityMismatch e)) \<and>
   (length vs = length ps \<longrightarrow>
      eval_call_closure ev ps bd cenv vs = ev bd (child_env ps vs cenv) \<and>
      parent (child_env ps vs cenv) = Some cenv \<and>
      dom (bindings (child_env ps vs cenv)) = set ps \<and>
      (\<forall>i<length ps. ps ! i \<notin> set (drop (Suc i) ps) \<longrightarrow>
          bindings (child_env ps vs cenv) (ps ! i) = Some (vs ! i)) \<and>
      (distinct ps \<longrightarrow>
         (\<forall>i<length ps. bindings (child_env ps vs cenv) (ps ! i) = Some (vs ! i))) \<and>
      (\<forall>name. name \<notin> set ps \<longrightarrow> get (child_env ps vs cenv) name = get cenv name)) \<and>
   (eval_expr h n f env = Some (Inr (VClosure ps bd cenv)) \<and>
    eval_args (eval_expr h n) args env = Some (Inr vs) \<longrightarrow>
      eval_expr h (Suc n) (CallExpr f args) env =
        eval_call_closure (eval_expr h n) ps bd cenv vs) \<and>
   (x \<noteq> y \<and> x \<noteq> kw_true h \<and> x \<noteq> kw_false h \<longrightarrow>
      eval_call_closure (eval_expr h (Suc n)) [x] (LambdaExpr [y] (SymbolLiteral x)) cenv [v] =
        Some (Inr (VClosure [y] (SymbolLiteral x) (child_env [x] [v] cenv))) \<and>
      (\<forall>m. eval_call_closure (eval_expr h (Suc m)) [y] (SymbolLiteral x)
              (child_env [x] [v] cenv) [w] = Some (Inr v)))"
proof -
  have arity: "length vs \<noteq> length ps \<longrightarrow>
      (\<exists>e. eval_call_closure ev ps bd cenv vs = Some (Inl e) \<and> is_ArityMismatch e)"
    by (simp add: eval_call_closure_def is_ArityMismatch_def)
  have frame: "length vs = length ps \<longrightarrow>
      eval_call_closure ev ps bd cenv vs = ev bd (child_env ps vs cenv) \<and>
      parent (child_env ps vs cenv) = Some cenv \<and>
      dom (bindings (child_env ps vs cenv)) = set ps \<and>
      (\<forall>i<length ps. ps ! i \<notin> set (drop (Suc i) ps) \<longrightarrow>
          bindings (child_env ps vs cenv) (ps ! i) = Some (vs ! i)) \<and>
      (distinct ps \<longrightarrow>
         (\<forall>i<length ps. bindings (child_env ps vs cenv) (ps ! i) = Some (vs ! i))) \<and>
      (\<forall>name. name \<notin> set ps \<longrightarrow> get (child_env ps vs cenv) name = get cenv name)"
    using get_child_env_other [of _ ps vs cenv]
    by (simp add: eval_call_closure_def dom_dict_zip dict_zip_last_occurrence dict_zip_distinct
        child_env_def)
  have dispatch: "eval_expr h n f env = Some (Inr (VClosure ps bd cenv)) \<and>
    eval_args (eval_expr h n) args env = Some (Inr vs) \<longrightarrow>
      eval_expr h (Suc n) (CallExpr f args) env =
        eval_call_closure (eval_expr h n) ps bd cenv vs"
    by (simp add: eval_call_def)
  have lexical: "x \<noteq> y \<and> x \<noteq> kw_true h \<and> x \<noteq> kw_false h \<longrightarrow>
      eval_call_closure (eval_expr h (Suc n)) [x] (LambdaExpr [y] (SymbolLiteral x)) cenv [v] =
        Some (Inr (VClosure [y] (SymbolLiteral x) (child_env [x] [v] cenv))) \<and>
      (\<forall>m. eval_call_closure (eval_expr h (Suc m)) [y] (SymbolLiteral x)
              (child_env [x] [v] cenv) [w] = Some (Inr v))"
    by (simp add: eval_call_closure_def child_env_def dict_zip_def)
  from arity frame dispatch lexical show ?thesis
    by (intro conjI)
qed

theorem closure_call_witness:
  "eval_expr exact_host 6
     (CallExpr
        (LambdaExpr [''x'']
           (CallExpr
              (CallExpr (LambdaExpr [''x''] (LambdaExpr [''y''] (SymbolLiteral ''x''))) [IntLiteral 1])
              [IntLiteral 2]))
        [IntLiteral 99])
     base_env = Some (Inr (VInt 1)) \<and>
   eval_call_closure (eval_expr exact_host 1) [''x'', ''y''] (SymbolLiteral ''y'') base_env
     [VInt 2, VInt 3, VInt 4] = Some (Inl (RuntimeError ''Argument count mismatch'')) \<and>
   eval_call_closure (eval_expr exact_host 1) [''x'', ''y''] (SymbolLiteral ''y'') base_env
     [VInt 2, VInt 3] = Some (Inr (VInt 3))"
  using closure_call [where vs = "[VInt 2, VInt 3, VInt 4]" and ps = "[''x'', ''y'']"
      and ev = "eval_expr exact_host 1" and bd = "SymbolLiteral ''y''" and cenv = base_env
      and h = exact_host and n = 0 and f = "IntLiteral 0" and env = base_env and args = "[]"
      and x = "''x''" and y = "''y''" and v = "VInt 1" and w = "VInt 2"]
    closure_call [where vs = "[VInt 2, VInt 3]" and ps = "[''x'', ''y'']"
      and ev = "eval_expr exact_host 1" and bd = "SymbolLiteral ''y''" and cenv = base_env
      and h = exact_host and n = 0 and f = "IntLiteral 0" and env = base_env and args = "[]"
      and x = "''x''" and y = "''y''" and v = "VInt 1" and w = "VInt 2"]
  by (simp add: eval_nat_numeral eval_call_def eval_call_closure_def child_env_def dict_zip_def
      exact_host_def)

text \<open>
  Claim C1 as stated fails: it lets the new frame bind every parameter to the argument
  at the same position, for every closure. The call of a closure with the parameters
  \<^verbatim>\<open>[x, x]\<close> on \<^verbatim>\<open>(1, 2)\<close> passes the count check and evaluates the body in the new frame,
  and that frame binds the parameter at position 0 to 2, the argument at position 1.
\<close>

theorem closure_call_positional_counterexample:
  "length [VInt 1, VInt 2 :: rat val] = length [''x'', ''x''] \<and>
   eval_call_closure (eval_expr exact_host 1) [''x'', ''x''] (SymbolLiteral ''x'') base_env
       [VInt 1, VInt 2] =
     eval_expr exact_host 1 (SymbolLiteral ''x'')
       (child_env [''x'', ''x''] [VInt 1, VInt 2] base_env) \<and>
   bindings (child_env [''x'', ''x''] [VInt 1, VInt 2 :: rat val] base_env) ([''x'', ''x''] ! 0) =
     Some ([VInt 1, VInt 2] ! 1) \<and>
   \<not> (\<forall>i<length [''x'', ''x''].
         bindings (child_env [''x'', ''x''] [VInt 1, VInt 2 :: rat val] base_env) ([''x'', ''x''] ! i) =
           Some ([VInt 1, VInt 2] ! i))"
proof -
  have b0: "bindings (child_env [''x'', ''x''] [VInt 1, VInt 2 :: rat val] base_env) ([''x'', ''x''] ! 0) =
      Some (VInt 2)"
    by (simp add: child_env_def dict_zip_def)
  then have "\<not> (\<forall>i<length [''x'', ''x''].
         bindings (child_env [''x'', ''x''] [VInt 1, VInt 2 :: rat val] base_env) ([''x'', ''x''] ! i) =
           Some ([VInt 1, VInt 2] ! i))"
    by (auto intro!: exI [where x = 0])
  with b0 show ?thesis
    by (simp add: eval_call_closure_def)
qed

text \<open>
  Claim C2, as amended. The call frame of a closure call that passes the arity check
  has as many bindings as there are different parameter names. When the parameter
  names are pairwise different, these are exactly as many as the closure has
  parameters, and each parameter is bound to the argument at the same index.
\<close>

theorem call_frame_bindings:
  "length vs = length ps \<Longrightarrow>
     card (dom (bindings (child_env ps vs cenv))) = card (set ps) \<and>
     (distinct ps \<longrightarrow>
        card (dom (bindings (child_env ps vs cenv))) = length ps \<and>
        (\<forall>i<length ps. bindings (child_env ps vs cenv) (ps ! i) = Some (vs ! i)))"
  by (simp add: child_env_def dom_dict_zip dict_zip_distinct distinct_card)

theorem call_frame_bindings_witness:
  "length [VInt 2, VInt 3 :: rat val] = length [''x'', ''y''] \<and> distinct [''x'', ''y''] \<and>
   card (dom (bindings (child_env [''x'', ''y''] [VInt 2, VInt 3 :: rat val] base_env))) = 2 \<and>
   bindings (child_env [''x'', ''y''] [VInt 2, VInt 3 :: rat val] base_env) ''y'' = Some (VInt 3)"
  using call_frame_bindings [of "[VInt 2, VInt 3 :: rat val]" "[''x'', ''y'']" base_env]
  by (auto dest: spec [of _ 1])

text \<open>
  Claim C2 as stated fails for a parameter list with a repeated name: for the
  parameters \<^verbatim>\<open>[x, x]\<close> and the arguments \<^verbatim>\<open>(1, 2)\<close> the call binds its arguments and
  returns, yet the frame has one binding, and \<^verbatim>\<open>x\<close> at index 0 is bound to 2.
\<close>

theorem repeated_parameter_counterexample:
  "length [''x'', ''x''] = 2 \<and>
   card (dom (bindings (child_env [''x'', ''x''] [VInt 1, VInt 2 :: rat val] base_env))) = 1 \<and>
   bindings (child_env [''x'', ''x''] [VInt 1, VInt 2 :: rat val] base_env) ''x'' = Some (VInt 2) \<and>
   eval_call_closure (eval_expr exact_host 1) [''x'', ''x''] (SymbolLiteral ''x'') base_env
     [VInt 1, VInt 2] = Some (Inr (VInt 2))"
  by (simp add: child_env_def dict_zip_def eval_call_closure_def exact_host_def)

section \<open>Conditionals\<close>

lemma eval_if_first_truthy:
  assumes "k < length cs" "k < length ts"
    and "\<forall>j<k. \<exists>v. ev (cs ! j) env = Some (Inr v) \<and> \<not> truthy h v"
    and "ev (cs ! k) env = Some (Inr v)" "truthy h v"
  shows "eval_if ev h (zip cs ts) alt env = ev (ts ! k) env"
proof -
  have "eval_if ev h (zip cs ts) alt env = eval_if ev h (zip (drop k cs) (drop k ts)) alt env"
    using assms(1-3) by (intro eval_if_skip) simp_all
  also have "zip (drop k cs) (drop k ts) = (cs ! k, ts ! k) # zip (drop (Suc k) cs) (drop (Suc k) ts)"
    using assms(1,2) by (simp flip: Cons_nth_drop_Suc)
  finally show ?thesis using assms(4,5) by simp
qed

lemma eval_if_first_failure:
  assumes "k < length cs" "k < length ts"
    and "\<forall>j<k. \<exists>v. ev (cs ! j) env = Some (Inr v) \<and> \<not> truthy h v"
    and "ev (cs ! k) env = Some (Inl e)"
  shows "eval_if ev h (zip cs ts) alt env = Some (Inl e)"
proof -
  have "eval_if ev h (zip cs ts) alt env = eval_if ev h (zip (drop k cs) (drop k ts)) alt env"
    using assms(1-3) by (intro eval_if_skip) simp_all
  also have "zip (drop k cs) (drop k ts) = (cs ! k, ts ! k) # zip (drop (Suc k) cs) (drop (Suc k) ts)"
    using assms(1,2) by (simp flip: Cons_nth_drop_Suc)
  finally show ?thesis using assms(4) by simp
qed

lemma eval_if_none_truthy:
  assumes "length cs = length ts"
    and "\<forall>j<length cs. \<exists>v. ev (cs ! j) env = Some (Inr v) \<and> \<not> truthy h v"
  shows "eval_if ev h (zip cs ts) alt env = ev alt env"
proof -
  have "eval_if ev h (zip cs ts) alt env =
      eval_if ev h (zip (drop (length cs) cs) (drop (length cs) ts)) alt env"
    using assms by (intro eval_if_skip) simp_all
  then show ?thesis by simp
qed

text \<open>
  Claim C4. For an \<^verbatim>\<open>IfExpr\<close> whose conditions and consequents have the same length:
  when the conditions before index \<open>k\<close> evaluate to values that are not truthy and the
  condition at \<open>k\<close> evaluates to a truthy value, the conditional is the evaluation of
  the consequent at \<open>k\<close>; when every condition evaluates to a value that is not truthy,
  it is the evaluation of the alternative. Nothing is assumed of the conditions after
  \<open>k\<close>, of the other consequents or of the alternative: they may fail or not return,
  the result is the same, so they are not evaluated. The conditions are evaluated from
  the left: a failure of the condition at \<open>k\<close> is the failure of the conditional when
  the conditions before it are not truthy. With conditions \<^verbatim>\<open>[false, false]\<close> the
  conditional on \<^verbatim>\<open>[A, B]\<close> and \<^verbatim>\<open>C\<close> is \<^verbatim>\<open>C\<close>, with \<^verbatim>\<open>[false, true]\<close> it is \<^verbatim>\<open>B\<close>.
\<close>

theorem if_selects_first_truthy:
  assumes "length cs = length ts"
  shows
   "(k < length cs \<and>
     (\<forall>j<k. \<exists>v. eval_expr h n (cs ! j) env = Some (Inr v) \<and> \<not> truthy h v) \<and>
     (\<exists>v. eval_expr h n (cs ! k) env = Some (Inr v) \<and> truthy h v) \<longrightarrow>
       eval_expr h (Suc n) (IfExpr cs ts alt) env = eval_expr h n (ts ! k) env) \<and>
    ((\<forall>j<length cs. \<exists>v. eval_expr h n (cs ! j) env = Some (Inr v) \<and> \<not> truthy h v) \<longrightarrow>
       eval_expr h (Suc n) (IfExpr cs ts alt) env = eval_expr h n alt env) \<and>
    (k < length cs \<and>
     (\<forall>j<k. \<exists>v. eval_expr h n (cs ! j) env = Some (Inr v) \<and> \<not> truthy h v) \<and>
     eval_expr h n (cs ! k) env = Some (Inl e) \<longrightarrow>
       eval_expr h (Suc n) (IfExpr cs ts alt) env = Some (Inl e)) \<and>
    (kw_true h \<noteq> kw_false h \<longrightarrow>
       eval_expr h (Suc (Suc n))
         (IfExpr [SymbolLiteral (kw_false h), SymbolLiteral (kw_false h)] [A, B] C) env =
       eval_expr h (Suc n) C env \<and>
       eval_expr h (Suc (Suc n))
         (IfExpr [SymbolLiteral (kw_false h), SymbolLiteral (kw_true h)] [A, B] C) env =
       eval_expr h (Suc n) B env)"
proof -
  have first: "k < length cs \<and>
     (\<forall>j<k. \<exists>v. eval_expr h n (cs ! j) env = Some (Inr v) \<and> \<not> truthy h v) \<and>
     (\<exists>v. eval_expr h n (cs ! k) env = Some (Inr v) \<and> truthy h v) \<longrightarrow>
       eval_expr h (Suc n) (IfExpr cs ts alt) env = eval_expr h n (ts ! k) env"
    using assms eval_if_first_truthy [of k cs ts "eval_expr h n" env h _ alt]
    by auto
  have none: "(\<forall>j<length cs. \<exists>v. eval_expr h n (cs ! j) env = Some (Inr v) \<and> \<not> truthy h v) \<longrightarrow>
       eval_expr h (Suc n) (IfExpr cs ts alt) env = eval_expr h n alt env"
    using assms eval_if_none_truthy [of cs ts "eval_expr h n" env h alt]
    by auto
  have failure: "k < length cs \<and>
     (\<forall>j<k. \<exists>v. eval_expr h n (cs ! j) env = Some (Inr v) \<and> \<not> truthy h v) \<and>
     eval_expr h n (cs ! k) env = Some (Inl e) \<longrightarrow>
       eval_expr h (Suc n) (IfExpr cs ts alt) env = Some (Inl e)"
    using assms eval_if_first_failure [of k cs ts "eval_expr h n" env h e alt]
    by auto
  have examples: "kw_true h \<noteq> kw_false h \<longrightarrow>
       eval_expr h (Suc (Suc n))
         (IfExpr [SymbolLiteral (kw_false h), SymbolLiteral (kw_false h)] [A, B] C) env =
       eval_expr h (Suc n) C env \<and>
       eval_expr h (Suc (Suc n))
         (IfExpr [SymbolLiteral (kw_false h), SymbolLiteral (kw_true h)] [A, B] C) env =
       eval_expr h (Suc n) B env"
    by auto
  show ?thesis using first none failure examples by blast
qed

theorem if_selects_first_truthy_witness:
  "length [SymbolLiteral ''false'', IntLiteral 3, SymbolLiteral ''unbound''] =
     length [SymbolLiteral ''unbound'', StringLiteral ''B'', SymbolLiteral ''unbound''] \<and>
   eval_expr exact_host 2
     (IfExpr [SymbolLiteral ''false'', IntLiteral 3, SymbolLiteral ''unbound'']
        [SymbolLiteral ''unbound'', StringLiteral ''B'', SymbolLiteral ''unbound'']
        (SymbolLiteral ''unbound'')) base_env = Some (Inr (VStr ''B'')) \<and>
   eval_expr exact_host 2
     (IfExpr [SymbolLiteral ''false'', IntLiteral 0] [SymbolLiteral ''unbound'', SymbolLiteral ''unbound'']
        (StringLiteral ''C'')) base_env = Some (Inr (VStr ''C'')) \<and>
   eval_expr exact_host 1 (SymbolLiteral ''unbound'') base_env =
     Some (Inl (UndefinedIdentifier ''unbound''))"
proof -
  let ?cs = "[SymbolLiteral ''false'', IntLiteral 3, SymbolLiteral ''unbound''] :: rat expr list"
  let ?ts = "[SymbolLiteral ''unbound'', StringLiteral ''B'', SymbolLiteral ''unbound''] :: rat expr list"
  have len: "length ?cs = length ?ts" by simp
  have len2: "length [SymbolLiteral ''false'', IntLiteral 0 :: rat expr] =
      length [SymbolLiteral ''unbound'', SymbolLiteral ''unbound'' :: rat expr]" by simp
  have unbound: "eval_expr exact_host 1 (SymbolLiteral ''unbound'') base_env =
     Some (Inl (UndefinedIdentifier ''unbound''))"
    by (simp add: exact_host_def base_env_def BUILTINS_def UndefinedIdentifier_def)
  have c0: "eval_expr exact_host 1 (SymbolLiteral ''false'') base_env = Some (Inr (VBool False))"
    by (simp add: exact_host_def)
  have falsy: "\<forall>j<1. \<exists>v. eval_expr exact_host 1 (?cs ! j) base_env = Some (Inr v) \<and> \<not> truthy exact_host v"
    using c0 by simp
  have truthy: "\<exists>v. eval_expr exact_host 1 (?cs ! 1) base_env = Some (Inr v) \<and> truthy exact_host v"
    by simp
  have all_falsy: "\<forall>j<length [SymbolLiteral ''false'', IntLiteral 0 :: rat expr].
      \<exists>v. eval_expr exact_host 1 ([SymbolLiteral ''false'', IntLiteral 0] ! j) base_env = Some (Inr v)
        \<and> \<not> truthy exact_host v"
    using c0 by (simp add: less_Suc_eq)
  have two: "(2::nat) = Suc 1" by simp
  show ?thesis
    using len unbound falsy truthy
      if_selects_first_truthy [OF len, of 1 exact_host 1 base_env "SymbolLiteral ''unbound''"]
      if_selects_first_truthy [OF len2, of 0 exact_host 1 base_env "StringLiteral ''C''"] all_falsy
    unfolding two by simp
qed

section \<open>Call expressions\<close>

lemma eval_call_not_callable:
  "ev f env = Some (Inr opv) \<Longrightarrow> \<not> callable opv \<Longrightarrow> eval_args ev args env = Some (Inr vs) \<Longrightarrow>
   eval_call ev h f args env = Some (Inl (NotCallable h opv))"
  by (cases opv) (simp_all add: eval_call_def callable_def NotCallable_def)

text \<open>
  Claim C5. A call expression evaluates its operator first: when that fails or does
  not return, so does the call, whatever the arguments are. Then it evaluates the
  arguments from the left, all of them and before it looks at the operator value: the
  first argument that fails (or does not return) after arguments that returned makes
  the call fail with that failure (or not return), whatever the operator value is, be
  it a builtin of another arity or no callable at all. Only when every argument has
  returned a value the call dispatches: to the builtin call, to the closure call, or,
  for a value that is neither, to the failure \<open>NotCallable\<close>, whose message holds the
  rendering of that value.
\<close>

theorem call_evaluation_order:
  "(eval_expr h n f env = Some (Inl e) \<longrightarrow>
      eval_expr h (Suc n) (CallExpr f args) env = Some (Inl e)) \<and>
   (eval_expr h n f env = None \<longrightarrow> eval_expr h (Suc n) (CallExpr f args) env = None) \<and>
   (eval_expr h n f env = Some (Inr opv) \<and> k < length args \<and>
    (\<forall>j<k. \<exists>v. eval_expr h n (args ! j) env = Some (Inr v)) \<and>
    eval_expr h n (args ! k) env = Some (Inl e) \<longrightarrow>
      eval_expr h (Suc n) (CallExpr f args) env = Some (Inl e)) \<and>
   (eval_expr h n f env = Some (Inr opv) \<and> k < length args \<and>
    (\<forall>j<k. \<exists>v. eval_expr h n (args ! j) env = Some (Inr v)) \<and>
    eval_expr h n (args ! k) env = None \<longrightarrow>
      eval_expr h (Suc n) (CallExpr f args) env = None) \<and>
   (eval_expr h n f env = Some (Inr opv) \<and> length vs = length args \<and>
    (\<forall>j<length args. eval_expr h n (args ! j) env = Some (Inr (vs ! j))) \<longrightarrow>
      (\<not> callable opv \<longrightarrow>
         eval_expr h (Suc n) (CallExpr f args) env = Some (Inl (NotCallable h opv))) \<and>
      (\<forall>b. opv = VBuiltin b \<longrightarrow>
         eval_expr h (Suc n) (CallExpr f args) env = Some (eval_call_builtin h b vs)) \<and>
      (\<forall>ps bd cenv. opv = VClosure ps bd cenv \<longrightarrow>
         eval_expr h (Suc n) (CallExpr f args) env =
           eval_call_closure (eval_expr h n) ps bd cenv vs)) \<and>
   NotCallable h (VInt i) = RuntimeError (''Unsupported operator: '' @ str_int i) \<and>
   NotCallable h (VStr s) = RuntimeError (''Unsupported operator: '' @ s) \<and>
   NotCallable h (VBool t) = RuntimeError (''Unsupported operator: '' @ (if t then ''True'' else ''False'')) \<and>
   NotCallable h (VFloat r) = RuntimeError (''Unsupported operator: '' @ frepr h r)"
proof -
  have op: "(eval_expr h n f env = Some (Inl e) \<longrightarrow>
      eval_expr h (Suc n) (CallExpr f args) env = Some (Inl e)) \<and>
   (eval_expr h n f env = None \<longrightarrow> eval_expr h (Suc n) (CallExpr f args) env = None)"
    by (simp add: eval_call_def)
  have arg_fail: "eval_expr h n f env = Some (Inr opv) \<and> k < length args \<and>
    (\<forall>j<k. \<exists>v. eval_expr h n (args ! j) env = Some (Inr v)) \<and>
    eval_expr h n (args ! k) env = Some (Inl e) \<longrightarrow>
      eval_expr h (Suc n) (CallExpr f args) env = Some (Inl e)"
    using eval_args_first_failure [of k args "eval_expr h n" env e]
    by (auto simp: eval_call_def)
  have arg_none: "eval_expr h n f env = Some (Inr opv) \<and> k < length args \<and>
    (\<forall>j<k. \<exists>v. eval_expr h n (args ! j) env = Some (Inr v)) \<and>
    eval_expr h n (args ! k) env = None \<longrightarrow>
      eval_expr h (Suc n) (CallExpr f args) env = None"
    using eval_args_first_timeout [of k args "eval_expr h n" env]
    by (auto simp: eval_call_def)
  have dispatch: "eval_expr h n f env = Some (Inr opv) \<and> length vs = length args \<and>
    (\<forall>j<length args. eval_expr h n (args ! j) env = Some (Inr (vs ! j))) \<longrightarrow>
      (\<not> callable opv \<longrightarrow>
         eval_expr h (Suc n) (CallExpr f args) env = Some (Inl (NotCallable h opv))) \<and>
      (\<forall>b. opv = VBuiltin b \<longrightarrow>
         eval_expr h (Suc n) (CallExpr f args) env = Some (eval_call_builtin h b vs)) \<and>
      (\<forall>ps bd cenv. opv = VClosure ps bd cenv \<longrightarrow>
         eval_expr h (Suc n) (CallExpr f args) env =
           eval_call_closure (eval_expr h n) ps bd cenv vs)"
  proof (intro impI, elim conjE)
    assume f: "eval_expr h n f env = Some (Inr opv)" and len: "length vs = length args"
      and vals: "\<forall>j<length args. eval_expr h n (args ! j) env = Some (Inr (vs ! j))"
    have args: "eval_args (eval_expr h n) args env = Some (Inr vs)"
      using len vals by (rule eval_args_values)
    show "(\<not> callable opv \<longrightarrow>
         eval_expr h (Suc n) (CallExpr f args) env = Some (Inl (NotCallable h opv))) \<and>
      (\<forall>b. opv = VBuiltin b \<longrightarrow>
         eval_expr h (Suc n) (CallExpr f args) env = Some (eval_call_builtin h b vs)) \<and>
      (\<forall>ps bd cenv. opv = VClosure ps bd cenv \<longrightarrow>
         eval_expr h (Suc n) (CallExpr f args) env =
           eval_call_closure (eval_expr h n) ps bd cenv vs)"
      using f args eval_call_not_callable [OF f _ args, of h]
      by (auto simp: eval_call_def)
  qed
  have msg: "NotCallable h (VInt i) = RuntimeError (''Unsupported operator: '' @ str_int i) \<and>
   NotCallable h (VStr s) = RuntimeError (''Unsupported operator: '' @ s) \<and>
   NotCallable h (VBool t) = RuntimeError (''Unsupported operator: '' @ (if t then ''True'' else ''False'')) \<and>
   NotCallable h (VFloat r) = RuntimeError (''Unsupported operator: '' @ frepr h r)"
    by (simp add: NotCallable_def)
  show ?thesis using op arg_fail arg_none dispatch msg by blast
qed


theorem call_evaluation_order_witness:
  "eval_expr exact_host 2 (CallExpr (IntLiteral 5) [IntLiteral 1, StringLiteral ''a'']) base_env =
     Some (Inl (RuntimeError ''Unsupported operator: 5'')) \<and>
   eval_expr exact_host 2 (CallExpr (IntLiteral 5) [IntLiteral 1, SymbolLiteral ''unbound'']) base_env =
     Some (Inl (UndefinedIdentifier ''unbound'')) \<and>
   eval_expr exact_host 2 (CallExpr (SymbolLiteral ''nope'') [SymbolLiteral ''unbound'']) base_env =
     Some (Inl (UndefinedIdentifier ''nope'')) \<and>
   eval_expr exact_host 2
     (CallExpr (SymbolLiteral ''not'') [SymbolLiteral ''unbound'', SymbolLiteral ''other'']) base_env =
     Some (Inl (UndefinedIdentifier ''unbound''))"
proof -
  have two: "(2::nat) = Suc 1" by simp
  have op5: "eval_expr exact_host 1 (IntLiteral 5) base_env = Some (Inr (VInt 5))" by simp
  have nope: "eval_expr exact_host 1 (SymbolLiteral ''nope'') base_env =
      Some (Inl (UndefinedIdentifier ''nope''))"
    by (simp add: exact_host_def base_env_def BUILTINS_def UndefinedIdentifier_def)
  have unbound: "eval_expr exact_host 1 (SymbolLiteral ''unbound'') base_env =
      Some (Inl (UndefinedIdentifier ''unbound''))"
    by (simp add: exact_host_def base_env_def BUILTINS_def UndefinedIdentifier_def)
  have opnot: "eval_expr exact_host 1 (SymbolLiteral ''not'') base_env =
      Some (Inr (VBuiltin (BoolToBool Not)))"
    by (simp add: exact_host_def base_env_def BUILTINS_def)
  have vals: "\<forall>j<length [IntLiteral 1, StringLiteral ''a'' :: rat expr].
      eval_expr exact_host 1 ([IntLiteral 1, StringLiteral ''a''] ! j) base_env =
        Some (Inr ([VInt 1, VStr ''a''] ! j))"
    by (simp add: less_Suc_eq)
  have first: "\<forall>j<1. \<exists>v. eval_expr exact_host 1 ([IntLiteral 1, SymbolLiteral ''unbound''] ! j) base_env =
      Some (Inr v)"
    by simp
  have str5: "str_int 5 = ''5''"
    by (simp add: str_int_def str_nat.simps)
  show ?thesis
    unfolding two
    using op5 nope unbound opnot vals first str5
      call_evaluation_order [where h = exact_host and n = 1 and f = "IntLiteral 5" and env = base_env
        and args = "[IntLiteral 1, StringLiteral ''a'']" and opv = "VInt 5"
        and vs = "[VInt 1, VStr ''a'']" and i = 5 and k = 0]
      call_evaluation_order [where h = exact_host and n = 1 and f = "IntLiteral 5" and env = base_env
        and args = "[IntLiteral 1, SymbolLiteral ''unbound'']" and opv = "VInt 5"
        and e = "UndefinedIdentifier ''unbound''" and k = 1]
      call_evaluation_order [where h = exact_host and n = 1 and f = "SymbolLiteral ''nope''"
        and env = base_env and args = "[SymbolLiteral ''unbound'']"
        and e = "UndefinedIdentifier ''nope''"]
      call_evaluation_order [where h = exact_host and n = 1 and f = "SymbolLiteral ''not''"
        and env = base_env and args = "[SymbolLiteral ''unbound'', SymbolLiteral ''other'']"
        and opv = "VBuiltin (BoolToBool Not)" and e = "UndefinedIdentifier ''unbound''" and k = 0]
    by (simp add: callable_def)
qed


section \<open>What a failure carries\<close>

text \<open>
  Claim C8, as amended. \<open>UndefinedIdentifier\<close> carries the name and \<open>NotCallable\<close> the
  rendering of the value. An \<open>ArityMismatch\<close> of a builtin call is one message for each
  variant, whatever the arguments are: it carries the expected count and nothing of
  the actual count. An \<open>ArityMismatch\<close> of a closure call is one fixed message, the same
  for all parameter lists and argument lists: it carries neither count. A
  \<open>TypeMismatch\<close> is one message for each variant, whatever the arguments are: it names
  the expected kind (number, boolean or string) and carries nothing of the actual
  value.
\<close>

theorem failure_context:
  "(\<forall>e. eval_symbol h name (Some env) = Inl e \<longrightarrow>
        e = RuntimeError (''Undefined identifier: '' @ name)) \<and>
   (eval_expr h n f env = Some (Inr opv) \<and> \<not> callable opv \<and>
    eval_args (eval_expr h n) args env = Some (Inr vs) \<longrightarrow>
      eval_expr h (Suc n) (CallExpr f args) env =
        Some (Inl (RuntimeError (''Unsupported operator: '' @ py_str h opv)))) \<and>
   (\<forall>ws. length ws \<noteq> arity b \<longrightarrow>
      eval_call_builtin h b ws =
        Inl (RuntimeError (''Expected '' @ str_nat (arity b) @ '' arguments''))) \<and>
   (\<forall>qs ws. length ws \<noteq> length qs \<longrightarrow>
      eval_call_closure ev qs bd cenv ws = Some (Inl (RuntimeError ''Argument count mismatch''))) \<and>
   (\<exists>c. \<forall>ws. length ws = arity b \<and> (\<exists>v\<in>set ws. \<not> accepts b v) \<longrightarrow>
      eval_call_builtin h b ws =
        Inl (RuntimeError (''Expected '' @ c @ '' '' @ kind_name b @ '' arguments'')))"
proof -
  have sym: "\<forall>e. eval_symbol h name (Some env) = Inl e \<longrightarrow>
        e = RuntimeError (''Undefined identifier: '' @ name)"
    by (auto split: option.splits if_splits)
  have nc: "eval_expr h n f env = Some (Inr opv) \<and> \<not> callable opv \<and>
    eval_args (eval_expr h n) args env = Some (Inr vs) \<longrightarrow>
      eval_expr h (Suc n) (CallExpr f args) env =
        Some (Inl (RuntimeError (''Unsupported operator: '' @ py_str h opv)))"
    using eval_call_not_callable [of "eval_expr h n" f env opv args vs h]
    by (auto simp: NotCallable_def)
  have ar: "\<forall>ws. length ws \<noteq> arity b \<longrightarrow>
      eval_call_builtin h b ws =
        Inl (RuntimeError (''Expected '' @ str_nat (arity b) @ '' arguments''))"
    using eval_call_builtin_arity [of _ b h] by blast
  have cl: "\<forall>qs ws. length ws \<noteq> length qs \<longrightarrow>
      eval_call_closure ev qs bd cenv ws = Some (Inl (RuntimeError ''Argument count mismatch''))"
    by (simp add: eval_call_closure_def)
  have ty_msg: "eval_call_builtin h b ws =
        Inl (RuntimeError (''Expected '' @ ''2'' @ '' '' @ kind_name b @ '' arguments''))"
    if "length ws = arity b \<and> (\<exists>v\<in>set ws. \<not> accepts b v)" for ws
  proof -
    from that have "eval_call_builtin h b ws =
        Inl (RuntimeError (''Expected 2 '' @ kind_name b @ '' arguments''))"
      by (simp only: eval_call_builtin_type)
    then show ?thesis by simp
  qed
  have "\<forall>ws. length ws = arity b \<and> (\<exists>v\<in>set ws. \<not> accepts b v) \<longrightarrow>
      eval_call_builtin h b ws =
        Inl (RuntimeError (''Expected '' @ ''2'' @ '' '' @ kind_name b @ '' arguments''))"
    by (intro allI impI ty_msg)
  then have ty: "\<exists>c. \<forall>ws. length ws = arity b \<and> (\<exists>v\<in>set ws. \<not> accepts b v) \<longrightarrow>
      eval_call_builtin h b ws =
        Inl (RuntimeError (''Expected '' @ c @ '' '' @ kind_name b @ '' arguments''))"
    by (rule exI [where x = "''2''"])
  from sym nc ar cl ty show ?thesis
    by (intro conjI)
qed

theorem failure_context_witness:
  "eval_symbol exact_host ''unbound'' (Some base_env) = Inl (RuntimeError ''Undefined identifier: unbound'') \<and>
   eval_call_builtin exact_host (NumberNumberToNumber Add) [VInt 1] =
     Inl (RuntimeError ''Expected 2 arguments'') \<and>
   eval_call_builtin exact_host (BoolToBool Not) [] = Inl (RuntimeError ''Expected 1 arguments'') \<and>
   eval_call_closure (eval_expr exact_host 1) [''x''] (SymbolLiteral ''x'') base_env [] =
     Some (Inl (RuntimeError ''Argument count mismatch'')) \<and>
   eval_call_builtin exact_host (StringStringToString Concat) [VStr ''a'', VInt 1] =
     eval_call_builtin exact_host (StringStringToString Concat) [VInt 7, VStr ''b''] \<and>
   (\<exists>e. eval_call_builtin exact_host (StringStringToString Concat) [VStr ''a'', VInt 1] = Inl e \<and>
        is_TypeMismatch e)"
  using failure_context [where h = exact_host and name = "''unbound''" and env = base_env
      and b = "NumberNumberToNumber Add" and n = 0]
    failure_context [where h = exact_host and name = "''unbound''" and env = base_env
      and b = "BoolToBool Not" and n = 0
      and ev = "eval_expr exact_host 1" and bd = "SymbolLiteral ''x''" and cenv = base_env]
    failure_context [where h = exact_host and name = "''unbound''" and env = base_env
      and b = "StringStringToString Concat" and n = 0]
  by (simp add: exact_host_def base_env_def BUILTINS_def str_nat.simps is_TypeMismatch_def
      eval_call_closure_def)

text \<open>
  Claim C8 as stated fails: the failure of \<^verbatim>\<open>+\<close> on one argument is the failure of \<^verbatim>\<open>+\<close> on
  three, so it does not carry the actual count; the failure of a closure of one
  parameter called on no argument is the failure of a closure of two parameters called
  on three arguments, so it carries neither count; and the failure of \<^verbatim>\<open>+\<close> on
  \<^verbatim>\<open>(1, "a")\<close> is that on \<^verbatim>\<open>(1, "b")\<close>, so it does not carry the actual value.
\<close>

theorem failure_context_counterexample:
  "eval_call_builtin exact_host (NumberNumberToNumber Add) [VInt 1] =
     eval_call_builtin exact_host (NumberNumberToNumber Add) [VInt 1, VInt 2, VInt 3] \<and>
   eval_call_builtin exact_host (NumberNumberToNumber Add) [VInt 1] =
     Inl (RuntimeError ''Expected 2 arguments'') \<and>
   eval_call_closure (eval_expr exact_host 1) [''x''] (SymbolLiteral ''x'') base_env [] =
     eval_call_closure (eval_expr exact_host 1) [''x'', ''y''] (SymbolLiteral ''x'') base_env
       [VInt 1, VInt 2, VInt 3] \<and>
   eval_call_closure (eval_expr exact_host 1) [''x''] (SymbolLiteral ''x'') base_env [] =
     Some (Inl (RuntimeError ''Argument count mismatch'')) \<and>
   eval_call_builtin exact_host (NumberNumberToNumber Add) [VInt 1, VStr ''a''] =
     eval_call_builtin exact_host (NumberNumberToNumber Add) [VInt 1, VStr ''b''] \<and>
   eval_call_builtin exact_host (NumberNumberToNumber Add) [VInt 1, VStr ''a''] =
     Inl (RuntimeError ''Expected 2 number arguments'')"
  by (simp add: eval_call_closure_def)


end
